theory Spec2Isabelle
  imports Complex_Main
begin

section \<open>Python values and the operations the client applies to them\<close>

text \<open>
  The client reads every status document and every registry listing with
  \<^verbatim>\<open>response.json()\<close>, so the values it works on are whatever JSON the peer sent.
  A parsed document is a value of \<open>json\<close>; a Python \<^verbatim>\<open>float\<close> is the rational it
  denotes, or one of the three special values the Python parser also accepts.
  Comparison of floats is exact on these values; only float addition rounds, and it is
  a parameter wherever it is needed.  An object is an association list read with
  \<open>map_of\<close>, so the first binding of a key is the one a lookup sees.
\<close>

datatype exc = AttributeError | TypeError | KeyError | ValueError | IndexError
  | OverflowError | ClientError | TimeoutError

datatype pyfloat = Finite rat | PosInf | NegInf | NaN

datatype json = JNull | JBool bool | JInt int | JFloat pyfloat | JStr string
  | JArr "json list" | JObj "(string \<times> json) list"

text \<open>Truth value of a Python object (\<^verbatim>\<open>not x\<close>, \<^verbatim>\<open>if x\<close>, \<^verbatim>\<open>x or y\<close>).\<close>

fun truthy :: "json \<Rightarrow> bool" where
  "truthy JNull = False"
| "truthy (JBool b) = b"
| "truthy (JInt i) = (i \<noteq> 0)"
| "truthy (JFloat f) = (f \<noteq> Finite 0)"
| "truthy (JStr s) = (s \<noteq> [])"
| "truthy (JArr xs) = (xs \<noteq> [])"
| "truthy (JObj kvs) = (kvs \<noteq> [])"

text \<open>\<^verbatim>\<open>d.get(k, dflt)\<close>: only a dict has the method.\<close>

definition lookup_default :: "(string \<times> json) list \<Rightarrow> string \<Rightarrow> json \<Rightarrow> json" where
  "lookup_default kvs k dflt = (case map_of kvs k of None \<Rightarrow> dflt | Some v \<Rightarrow> v)"

fun dict_get :: "json \<Rightarrow> string \<Rightarrow> json \<Rightarrow> exc + json" where
  "dict_get (JObj kvs) k dflt = Inr (lookup_default kvs k dflt)"
| "dict_get _ k dflt = Inl AttributeError"

text \<open>\<^verbatim>\<open>x > n\<close> for an int literal \<open>n\<close> and \<^verbatim>\<open>x < c\<close> for a float literal \<open>c\<close>:
  numbers (and bools, which are ints) compare by value, anything else raises.\<close>

fun py_gt_int :: "json \<Rightarrow> int \<Rightarrow> exc + bool" where
  "py_gt_int (JBool b) n = Inr ((if b then 1 else 0) > n)"
| "py_gt_int (JInt i) n = Inr (i > n)"
| "py_gt_int (JFloat (Finite r)) n = Inr (r > of_int n)"
| "py_gt_int (JFloat PosInf) n = Inr True"
| "py_gt_int (JFloat NegInf) n = Inr False"
| "py_gt_int (JFloat NaN) n = Inr False"
| "py_gt_int _ n = Inl TypeError"

fun py_lt_float :: "json \<Rightarrow> rat \<Rightarrow> exc + bool" where
  "py_lt_float (JBool b) c = Inr ((if b then 1 else 0) < c)"
| "py_lt_float (JInt i) c = Inr (of_int i < c)"
| "py_lt_float (JFloat (Finite r)) c = Inr (r < c)"
| "py_lt_float (JFloat PosInf) c = Inr False"
| "py_lt_float (JFloat NegInf) c = Inr True"
| "py_lt_float (JFloat NaN) c = Inr False"
| "py_lt_float _ c = Inl TypeError"

text \<open>The double nearest to the literal \<^verbatim>\<open>0.95\<close>, and the one nearest to \<^verbatim>\<open>0.1\<close>.\<close>

definition lit_0_95 :: rat where
  "lit_0_95 = 4278419646001971 / 4503599627370496"

definition lit_0_1 :: rat where
  "lit_0_1 = 3602879701896397 / 36028797018963968"

section \<open>Health classification\<close>

text \<open>
  \<^verbatim>\<open>_determine_status\<close> exists three times: in \<^verbatim>\<open>DockerDiscovery\<close> and
  \<^verbatim>\<open>PortScanner\<close> (discovery.py) and in \<^verbatim>\<open>NodeSync\<close> (sync.py).  Each is
  translated from its own text.  The first statement calls \<^verbatim>\<open>node_data.get\<close>, which
  raises on anything but a dict; from there on \<open>node_data\<close> is a dict.  In the
  reputation block both scores are read first (defaults 1.0 and 0.0), then the
  suspension score is compared, and the audit score only when that comparison was false.
\<close>

fun DockerDiscovery_determine_status :: "json \<Rightarrow> exc + string" where
  "DockerDiscovery_determine_status (JObj node_data) =
     (if \<not> truthy (lookup_default node_data ''lastContactSuccess'' JNull)
      then Inr ''OFFLINE''
      else (case map_of node_data ''reputation'' of
              None \<Rightarrow> Inr ''ONLINE''
            | Some reputation \<Rightarrow>
               (case dict_get reputation ''auditScore'' (JFloat (Finite 1)) of
                  Inl e \<Rightarrow> Inl e
                | Inr audit_score \<Rightarrow>
                   (case dict_get reputation ''suspensionScore'' (JFloat (Finite 0)) of
                      Inl e \<Rightarrow> Inl e
                    | Inr suspension_score \<Rightarrow>
                       (case py_gt_int suspension_score 0 of
                          Inl e \<Rightarrow> Inl e
                        | Inr True \<Rightarrow> Inr ''SUSPENDED''
                        | Inr False \<Rightarrow>
                           (case py_lt_float audit_score lit_0_95 of
                              Inl e \<Rightarrow> Inl e
                            | Inr True \<Rightarrow> Inr ''WARNING''
                            | Inr False \<Rightarrow> Inr ''ONLINE''))))))"
| "DockerDiscovery_determine_status _ = Inl AttributeError"

fun PortScanner_determine_status :: "json \<Rightarrow> exc + string" where
  "PortScanner_determine_status (JObj node_data) =
     (if \<not> truthy (lookup_default node_data ''lastContactSuccess'' JNull)
      then Inr ''OFFLINE''
      else (case map_of node_data ''reputation'' of
              None \<Rightarrow> Inr ''ONLINE''
            | Some reputation \<Rightarrow>
               (case dict_get reputation ''auditScore'' (JFloat (Finite 1)) of
                  Inl e \<Rightarrow> Inl e
                | Inr audit_score \<Rightarrow>
                   (case dict_get reputation ''suspensionScore'' (JFloat (Finite 0)) of
                      Inl e \<Rightarrow> Inl e
                    | Inr suspension_score \<Rightarrow>
                       (case py_gt_int suspension_score 0 of
                          Inl e \<Rightarrow> Inl e
                        | Inr True \<Rightarrow> Inr ''SUSPENDED''
                        | Inr False \<Rightarrow>
                           (case py_lt_float audit_score lit_0_95 of
                              Inl e \<Rightarrow> Inl e
                            | Inr True \<Rightarrow> Inr ''WARNING''
                            | Inr False \<Rightarrow> Inr ''ONLINE''))))))"
| "PortScanner_determine_status _ = Inl AttributeError"

fun NodeSync_determine_status :: "json \<Rightarrow> exc + string" where
  "NodeSync_determine_status (JObj node_data) =
     (if \<not> truthy (lookup_default node_data ''lastContactSuccess'' JNull)
      then Inr ''OFFLINE''
      else if truthy (lookup_default node_data ''disqualified'' JNull)
      then Inr ''DISQUALIFIED''
      else (case map_of node_data ''reputation'' of
              None \<Rightarrow> Inr ''ONLINE''
            | Some reputation \<Rightarrow>
               (case dict_get reputation ''auditScore'' (JFloat (Finite 1)) of
                  Inl e \<Rightarrow> Inl e
                | Inr audit_score \<Rightarrow>
                   (case dict_get reputation ''suspensionScore'' (JFloat (Finite 0)) of
                      Inl e \<Rightarrow> Inl e
                    | Inr suspension_score \<Rightarrow>
                       (case py_gt_int suspension_score 0 of
                          Inl e \<Rightarrow> Inl e
                        | Inr True \<Rightarrow> Inr ''SUSPENDED''
                        | Inr False \<Rightarrow>
                           (case py_lt_float audit_score lit_0_95 of
                              Inl e \<Rightarrow> Inl e
                            | Inr True \<Rightarrow> Inr ''WARNING''
                            | Inr False \<Rightarrow> Inr ''ONLINE''))))))"
| "NodeSync_determine_status _ = Inl AttributeError"

section \<open>Strings and integer parsing\<close>

text \<open>
  A Python \<^verbatim>\<open>str\<close> is modelled as a \<open>string\<close> whose characters are the code points
  below 256.  \<open>py_int\<close> is \<^verbatim>\<open>int(s)\<close> on such a string: surrounding whitespace is
  dropped, one sign is allowed, and the rest must be decimal digits, where single
  underscores may stand between digits.  Anything else raises \<^verbatim>\<open>ValueError\<close>.  (The
  interpreter's limit on the number of digits is left out.)
\<close>

definition is_space :: "char \<Rightarrow> bool" where
  "is_space c = (of_char c \<in> set [9, 10, 11, 12, 13, 28, 29, 30, 31, 32, 133, 160 :: nat])"

definition is_digit :: "char \<Rightarrow> bool" where
  "is_digit c = (48 \<le> (of_char c :: nat) \<and> (of_char c :: nat) \<le> 57)"

definition digit_val :: "char \<Rightarrow> nat" where
  "digit_val c = of_char c - 48"

fun digits_from :: "bool \<Rightarrow> string \<Rightarrow> nat \<Rightarrow> nat option" where
  "digits_from need [] acc = (if need then None else Some acc)"
| "digits_from need (c # cs) acc =
     (if is_digit c then digits_from False cs (10 * acc + digit_val c)
      else if c = CHR ''_'' \<and> \<not> need then digits_from True cs acc
      else None)"

definition strip :: "string \<Rightarrow> string" where
  "strip s = rev (dropWhile is_space (rev (dropWhile is_space s)))"

definition py_int :: "string \<Rightarrow> exc + int" where
  "py_int s =
     (case strip s of
        [] \<Rightarrow> Inl ValueError
      | c # cs \<Rightarrow>
         (if c = CHR ''-'' then
            (case digits_from True cs 0 of None \<Rightarrow> Inl ValueError | Some n \<Rightarrow> Inr (- int n))
          else if c = CHR ''+'' then
            (case digits_from True cs 0 of None \<Rightarrow> Inl ValueError | Some n \<Rightarrow> Inr (int n))
          else
            (case digits_from True (c # cs) 0 of None \<Rightarrow> Inl ValueError | Some n \<Rightarrow> Inr (int n))))"

text \<open>\<^verbatim>\<open>str(n)\<close> for an int, as the f-strings use it.\<close>

definition digit_char :: "nat \<Rightarrow> char" where
  "digit_char d = ''0123456789'' ! d"

fun str_of_nat :: "nat \<Rightarrow> string" where
  "str_of_nat n =
     (if n < 10 then [digit_char n] else str_of_nat (n div 10) @ [digit_char (n mod 10)])"

declare str_of_nat.simps [simp del]

definition str_of_int :: "int \<Rightarrow> string" where
  "str_of_int i = (if i < 0 then CHR ''-'' # str_of_nat (nat (- i)) else str_of_nat (nat i))"

text \<open>\<^verbatim>\<open>s.startswith(p)\<close>, \<^verbatim>\<open>s.endswith(p)\<close>, \<^verbatim>\<open>s.split(c, 1)[1]\<close>,
  \<^verbatim>\<open>s.split(c)[-1]\<close>, \<^verbatim>\<open>s.split(c)[0]\<close> and \<^verbatim>\<open>s.lstrip(c)\<close> for a one-character
  separator \<open>c\<close>.\<close>

definition startswith :: "string \<Rightarrow> string \<Rightarrow> bool" where
  "startswith s p = (take (length p) s = p)"

definition endswith :: "string \<Rightarrow> string \<Rightarrow> bool" where
  "endswith s p = (length p \<le> length s \<and> drop (length s - length p) s = p)"

definition split1_second :: "char \<Rightarrow> string \<Rightarrow> exc + string" where
  "split1_second c s =
     (if c \<in> set s then Inr (tl (dropWhile (\<lambda>x. x \<noteq> c) s)) else Inl IndexError)"

definition split_last :: "char \<Rightarrow> string \<Rightarrow> string" where
  "split_last c s = rev (takeWhile (\<lambda>x. x \<noteq> c) (rev s))"

definition split_first :: "char \<Rightarrow> string \<Rightarrow> string" where
  "split_first c s = takeWhile (\<lambda>x. x \<noteq> c) s"

definition lstrip :: "char \<Rightarrow> string \<Rightarrow> string" where
  "lstrip c s = dropWhile (\<lambda>x. x = c) s"

section \<open>Container attributes and port resolution\<close>

text \<open>
  The attributes of a container as the container runtime reports them, restricted to
  what discovery reads.  \<open>Ports\<close> maps a port specification such as \<^verbatim>\<open>14002/tcp\<close> to
  its host bindings, or to \<^verbatim>\<open>null\<close> (\<open>None\<close>) when the port is exposed but not
  published; it is kept as an association list because the range rule iterates over it
  in order.  A dict holds each key once.
\<close>

record port_binding =
  HostIp :: string
  HostPort :: string

record container_attrs =
  Name :: string
  Image :: string
  Ports :: "(string \<times> port_binding list option) list"
  Env :: "string list"

definition found :: "exc + int \<Rightarrow> exc + int option" where
  "found r = (case r of Inl e \<Rightarrow> Inl e | Inr p \<Rightarrow> Inr (Some p))"

text \<open>The loop over the environment: the first variable with the prefix whose value
  contains a colon decides; a variable with the prefix but no colon is passed over.\<close>

fun env_address_port :: "string \<Rightarrow> string list \<Rightarrow> (exc + int) option" where
  "env_address_port prefix [] = None"
| "env_address_port prefix (env_var # rest) =
     (if startswith env_var prefix then
        (case split1_second CHR ''='' env_var of
           Inl e \<Rightarrow> Some (Inl e)
         | Inr address \<Rightarrow>
            (if CHR '':'' \<in> set address then Some (py_int (split_last CHR '':'' address))
             else env_address_port prefix rest))
      else env_address_port prefix rest)"

text \<open>The loop over all port mappings: the first published TCP port whose container
  port lies in 14000..15000.\<close>

fun range_port :: "(string \<times> port_binding list option) list \<Rightarrow> exc + int option" where
  "range_port [] = Inr None"
| "range_port ((port_spec, mapping) # rest) =
     (case mapping of
        Some (b # bs) \<Rightarrow>
          (if endswith port_spec ''/tcp'' then
             (case py_int (split_first CHR ''/'' port_spec) of
                Inl e \<Rightarrow> Inl e
              | Inr container_port \<Rightarrow>
                 (if 14000 \<le> container_port \<and> container_port \<le> 15000
                  then found (py_int (HostPort b))
                  else range_port rest))
           else range_port rest)
      | _ \<Rightarrow> range_port rest)"

definition get_dashboard_port :: "container_attrs \<Rightarrow> exc + int option" where
  "get_dashboard_port attrs =
     (case map_of (Ports attrs) ''14002/tcp'' of
        Some (Some (b # bs)) \<Rightarrow> found (py_int (HostPort b))
      | _ \<Rightarrow>
         (case env_address_port ''CONSOLE_ADDRESS='' (Env attrs) of
            Some r \<Rightarrow> found r
          | None \<Rightarrow> range_port (Ports attrs)))"

definition get_storage_port :: "container_attrs \<Rightarrow> exc + int" where
  "get_storage_port attrs =
     (case map_of (Ports attrs) ''28967/tcp'' of
        Some (Some (b # bs)) \<Rightarrow> py_int (HostPort b)
      | _ \<Rightarrow>
         (case env_address_port ''ADDRESS='' (Env attrs) of
            Some r \<Rightarrow> r
          | None \<Rightarrow> Inr 28967))"

section \<open>Node records built by the two discoverers\<close>

text \<open>
  Both discoverers return a dict with a fixed set of keys; it is the record
  \<open>node_record\<close>.  The values copied from the status document keep whatever type the
  document gave them.  The three container keys exist only in records from the container
  discoverer.  \<open>image'\<close> and \<open>total'\<close> are the keys \<^verbatim>\<open>image\<close> and \<^verbatim>\<open>total\<close>.
\<close>

record disk_space_rec =
  used :: json
  available :: json
  total' :: json

record node_record =
  node_id :: json
  name :: string
  address :: string
  dashboard_port :: int
  storage_port :: int
  version :: json
  status :: string
  disk_space :: disk_space_rec
  bandwidth :: json
  uptime :: json
  last_contact :: json
  container_id :: "string option"
  container_name :: "string option"
  image' :: "string option"
  detected_from :: string

text \<open>
  Python's \<^verbatim>\<open>+\<close> on two parsed JSON values.  Ints (and bools) add exactly; a float
  operand turns the sum into a float sum, which rounds, so the two float primitives are
  parameters; strings and lists concatenate; every other pairing raises.
\<close>

record float_ops =
  float_add :: "pyfloat \<Rightarrow> pyfloat \<Rightarrow> pyfloat"
  float_of_int :: "int \<Rightarrow> exc + pyfloat"

fun as_int :: "json \<Rightarrow> int option" where
  "as_int (JBool b) = Some (if b then 1 else 0)"
| "as_int (JInt i) = Some i"
| "as_int _ = None"

fun as_float :: "float_ops \<Rightarrow> json \<Rightarrow> (exc + pyfloat) option" where
  "as_float fl (JBool b) = Some (float_of_int fl (if b then 1 else 0))"
| "as_float fl (JInt i) = Some (float_of_int fl i)"
| "as_float fl (JFloat x) = Some (Inr x)"
| "as_float fl _ = None"

definition seq :: "exc + 'a \<Rightarrow> ('a \<Rightarrow> exc + 'b) \<Rightarrow> exc + 'b" where
  "seq m f = (case m of Inl e \<Rightarrow> Inl e | Inr x \<Rightarrow> f x)"

definition py_add :: "float_ops \<Rightarrow> json \<Rightarrow> json \<Rightarrow> exc + json" where
  "py_add fl a b =
     (case (as_int a, as_int b) of
        (Some i, Some j) \<Rightarrow> Inr (JInt (i + j))
      | _ \<Rightarrow>
        (case (as_float fl a, as_float fl b) of
           (Some x, Some y) \<Rightarrow>
             seq x (\<lambda>x'. seq y (\<lambda>y'. Inr (JFloat (float_add fl x' y'))))
         | _ \<Rightarrow>
           (case (a, b) of
              (JStr s, JStr t) \<Rightarrow> Inr (JStr (s @ t))
            | (JArr xs, JArr ys) \<Rightarrow> Inr (JArr (xs @ ys))
            | _ \<Rightarrow> Inl TypeError)))"

text \<open>\<^verbatim>\<open>node_data.get('diskSpace', {}).get(k, 0)\<close>\<close>

definition disk_field :: "json \<Rightarrow> string \<Rightarrow> exc + json" where
  "disk_field node_data k =
     seq (dict_get node_data ''diskSpace'' (JObj [])) (\<lambda>d. dict_get d k (JInt 0))"

text \<open>The \<^verbatim>\<open>disk_space\<close> entry of the dict literal, evaluated left to right as written
  in both discoverers.\<close>

definition disk_space_of :: "float_ops \<Rightarrow> json \<Rightarrow> exc + disk_space_rec" where
  "disk_space_of fl node_data =
     seq (disk_field node_data ''used'') (\<lambda>u.
     seq (disk_field node_data ''available'') (\<lambda>a.
     seq (disk_field node_data ''used'') (\<lambda>u2.
     seq (disk_field node_data ''available'') (\<lambda>a2.
     seq (py_add fl u2 a2) (\<lambda>t.
     Inr \<lparr>used = u, available = a, total' = t\<rparr>)))))"

subsection \<open>HTTP\<close>

text \<open>
  What one request gives back: an exception (connection refused, timeout, \<open>\<dots>\<close>) or a
  reply with a status code; reading the reply's body as JSON or as text can itself raise.
\<close>

record http_reply =
  status_code :: int
  json_body :: "exc + json"
  text_body :: "exc + string"

type_synonym http_outcome = "exc + http_reply"

text \<open>\<^verbatim>\<open>_fetch_node_data\<close> (both in discovery.py and in sync.py): the document on a
  200 with a readable body, \<^verbatim>\<open>None\<close> in every other case.\<close>

definition fetch_node_data :: "http_outcome \<Rightarrow> json option" where
  "fetch_node_data outcome =
     (case outcome of
        Inl e \<Rightarrow> None
      | Inr reply \<Rightarrow>
         (if status_code reply = 200
          then (case json_body reply of Inl e \<Rightarrow> None | Inr doc \<Rightarrow> Some doc)
          else None))"

subsection \<open>PortScanner\<close>

definition PortScanner_node_dict :: "float_ops \<Rightarrow> string \<Rightarrow> int \<Rightarrow> json \<Rightarrow> exc + node_record" where
  "PortScanner_node_dict fl host port node_data =
     seq (dict_get node_data ''nodeID'' (JStr [])) (\<lambda>nid.
     seq (dict_get node_data ''version'' (JStr [])) (\<lambda>ver.
     seq (PortScanner_determine_status node_data) (\<lambda>st.
     seq (disk_space_of fl node_data) (\<lambda>ds.
     seq (dict_get node_data ''bandwidth'' (JObj [])) (\<lambda>bw.
     seq (dict_get node_data ''uptime'' (JInt 0)) (\<lambda>up.
     seq (dict_get node_data ''lastContactSuccess'' JNull) (\<lambda>lc.
     Inr \<lparr>node_id = nid, name = ''Node-'' @ str_of_int port, address = host,
          dashboard_port = port, storage_port = 28967, version = ver, status = st,
          disk_space = ds, bandwidth = bw, uptime = up, last_contact = lc,
          container_id = None, container_name = None, image' = None,
          detected_from = ''port_scan''\<rparr>)))))))"

text \<open>\<^verbatim>\<open>_check_port\<close>: every exception inside the \<^verbatim>\<open>try\<close> ends in \<^verbatim>\<open>None\<close>.\<close>

definition check_port :: "float_ops \<Rightarrow> string \<Rightarrow> int \<Rightarrow> http_outcome \<Rightarrow> node_record option" where
  "check_port fl host port outcome =
     (case outcome of
        Inl e \<Rightarrow> None
      | Inr reply \<Rightarrow>
         (if status_code reply = 200 then
            (case json_body reply of
               Inl e \<Rightarrow> None
             | Inr node_data \<Rightarrow>
                (case PortScanner_node_dict fl host port node_data of
                   Inl e \<Rightarrow> None
                 | Inr node \<Rightarrow> Some node))
          else None))"

text \<open>\<^verbatim>\<open>scan_ports\<close>: one probe per port, the dicts among the gathered results in the
  order of the ports.  \<open>http_get host port\<close> is what the GET to that port gives.\<close>

definition scan_ports :: "float_ops \<Rightarrow> (string \<Rightarrow> int \<Rightarrow> http_outcome) \<Rightarrow> string \<Rightarrow> int list \<Rightarrow> node_record list" where
  "scan_ports fl http_get host ports =
     List.map_filter (\<lambda>port. check_port fl host port (http_get host port)) ports"

subsection \<open>DockerDiscovery\<close>

record container =
  cid :: string
  reload :: "exc + container_attrs"

definition DockerDiscovery_node_dict ::
    "float_ops \<Rightarrow> container \<Rightarrow> container_attrs \<Rightarrow> string \<Rightarrow> int \<Rightarrow> json \<Rightarrow> exc + node_record" where
  "DockerDiscovery_node_dict fl c attrs host_ip port node_data =
     seq (dict_get node_data ''nodeID'' (JStr [])) (\<lambda>nid.
     seq (get_storage_port attrs) (\<lambda>sp.
     seq (dict_get node_data ''version'' (JStr [])) (\<lambda>ver.
     seq (DockerDiscovery_determine_status node_data) (\<lambda>st.
     seq (disk_space_of fl node_data) (\<lambda>ds.
     seq (dict_get node_data ''bandwidth'' (JObj [])) (\<lambda>bw.
     seq (dict_get node_data ''uptime'' (JInt 0)) (\<lambda>up.
     seq (dict_get node_data ''lastContactSuccess'' JNull) (\<lambda>lc.
     Inr \<lparr>node_id = nid, name = lstrip CHR ''/'' (Name attrs), address = host_ip,
          dashboard_port = port, storage_port = sp, version = ver, status = st,
          disk_space = ds, bandwidth = bw, uptime = up, last_contact = lc,
          container_id = Some (cid c),
          container_name = Some (lstrip CHR ''/'' (Name attrs)),
          image' = Some (Image attrs), detected_from = ''docker''\<rparr>))))))))"

text \<open>\<^verbatim>\<open>_extract_node_info\<close>: a port that is missing or 0, a probe without a document,
  a falsy document, and every exception end in \<^verbatim>\<open>None\<close>.\<close>

definition extract_node_info ::
    "float_ops \<Rightarrow> (string \<Rightarrow> int \<Rightarrow> http_outcome) \<Rightarrow> container \<Rightarrow> node_record option" where
  "extract_node_info fl http_get c =
     (case reload c of
        Inl e \<Rightarrow> None
      | Inr attrs \<Rightarrow>
         (case get_dashboard_port attrs of
            Inl e \<Rightarrow> None
          | Inr None \<Rightarrow> None
          | Inr (Some port) \<Rightarrow>
             (if port = 0 then None
              else (case fetch_node_data (http_get ''127.0.0.1'' port) of
                      None \<Rightarrow> None
                    | Some node_data \<Rightarrow>
                       (if \<not> truthy node_data then None
                        else (case DockerDiscovery_node_dict fl c attrs ''127.0.0.1'' port node_data of
                                Inl e \<Rightarrow> None
                              | Inr node \<Rightarrow> Some node))))))"

text \<open>\<^verbatim>\<open>discover_nodes\<close>: \<open>listing\<close> is what connecting to the runtime and listing
  the matching containers gave; a failure to connect gives no nodes.\<close>

definition discover_nodes ::
    "float_ops \<Rightarrow> (string \<Rightarrow> int \<Rightarrow> http_outcome) \<Rightarrow> exc + container list \<Rightarrow> node_record list" where
  "discover_nodes fl http_get listing =
     (case listing of
        Inl e \<Rightarrow> []
      | Inr containers \<Rightarrow> List.map_filter (extract_node_info fl http_get) containers)"

section \<open>Aggregation of the discovered records\<close>

text \<open>
  \<^verbatim>\<open>handle_discover\<close> collects the records in a dict keyed by \<^verbatim>\<open>node['node_id']\<close> and
  takes the dict's values.  A Python dict keeps a key at the position of its first
  insertion and replaces the value on a later insertion of an equal key; a list or a
  dict as key raises \<^verbatim>\<open>TypeError\<close>.  Keys are equal when Python's \<^verbatim>\<open>==\<close> says so:
  numbers (bools included) by value, strings and \<^verbatim>\<open>None\<close> by identity of content.  The
  parser hands out one and the same object for every \<^verbatim>\<open>NaN\<close>, so two such keys are the
  same key.
\<close>

fun hashable :: "json \<Rightarrow> bool" where
  "hashable (JArr xs) = False"
| "hashable (JObj kvs) = False"
| "hashable _ = True"

fun num_val :: "json \<Rightarrow> pyfloat option" where
  "num_val (JBool b) = Some (Finite (if b then 1 else 0))"
| "num_val (JInt i) = Some (Finite (of_int i))"
| "num_val (JFloat x) = Some x"
| "num_val _ = None"

definition py_key_eq :: "json \<Rightarrow> json \<Rightarrow> bool" where
  "py_key_eq a b =
     (case (num_val a, num_val b) of
        (Some x, Some y) \<Rightarrow> x = y
      | (None, None) \<Rightarrow> a = b
      | _ \<Rightarrow> False)"

fun dict_store :: "(json \<times> 'v) list \<Rightarrow> json \<Rightarrow> 'v \<Rightarrow> (json \<times> 'v) list" where
  "dict_store [] k v = [(k, v)]"
| "dict_store ((k', v') # rest) k v =
     (if py_key_eq k' k then (k', v) # rest else (k', v') # dict_store rest k v)"

text \<open>The loop \<^verbatim>\<open>for node in discovered_nodes: unique_nodes[node['node_id']] = node\<close>.\<close>

fun unique_nodes :: "(json \<times> node_record) list \<Rightarrow> node_record list \<Rightarrow> exc + (json \<times> node_record) list" where
  "unique_nodes d [] = Inr d"
| "unique_nodes d (node # rest) =
     (if hashable (node_id node) then unique_nodes (dict_store d (node_id node) node) rest
      else Inl TypeError)"

text \<open>
  \<^verbatim>\<open>handle_discover\<close> up to the deduplicated list.  \<open>docker_nodes\<close> is the container
  discoverer's output, or \<open>None\<close> when that discoverer was not selected; \<open>port_nodes\<close>
  likewise for the port scan.  The result is \<open>None\<close> when nothing was discovered and the
  function returns early, and the value of \<^verbatim>\<open>discovered_nodes\<close> after deduplication
  otherwise; printing and registration follow in the source.
\<close>

definition discovered_nodes :: "node_record list option \<Rightarrow> node_record list option \<Rightarrow> node_record list" where
  "discovered_nodes docker_nodes port_nodes =
     (case docker_nodes of None \<Rightarrow> [] | Some ds \<Rightarrow> ds)
     @ (case port_nodes of None \<Rightarrow> [] | Some ps \<Rightarrow> ps)"

definition handle_discover :: "node_record list option \<Rightarrow> node_record list option \<Rightarrow> exc + node_record list option" where
  "handle_discover docker_nodes port_nodes =
     (if discovered_nodes docker_nodes port_nodes = [] then Inr None
      else (case unique_nodes [] (discovered_nodes docker_nodes port_nodes) of
              Inl e \<Rightarrow> Inl e
            | Inr d \<Rightarrow> Inr (Some (map snd d))))"

text \<open>Auxiliary notions for the results on aggregation: the entries of a dict under a
  string key, and dicts whose every key equals the \<open>node_id\<close> of its value.\<close>

definition with_key :: "string \<Rightarrow> (json \<times> 'v) list \<Rightarrow> (json \<times> 'v) list" where
  "with_key s d = filter (\<lambda>kv. fst kv = JStr s) d"

definition keyed :: "(json \<times> node_record) list \<Rightarrow> bool" where
  "keyed d = list_all (\<lambda>kv. py_key_eq (fst kv) (node_id (snd kv))) d"

definition has_id :: "string \<Rightarrow> node_record \<Rightarrow> bool" where
  "has_id s n = (node_id n = JStr s)"

section \<open>Registry client (auth.py)\<close>

text \<open>
  A call of the logger: level, format string and arguments.  The logging module never
  raises into its caller, but evaluating an argument can.
\<close>

datatype log_level = Debug | Info | Warning | Error

datatype log_arg = AJson json | AInt int | AStr string | AExc exc

type_synonym log_call = "log_level \<times> string \<times> log_arg list"

text \<open>\<^verbatim>\<open>test_token\<close>: the outcome of the one GET decides.  The account info is returned
  from inside the \<^verbatim>\<open>try\<close> after the log line has read \<^verbatim>\<open>user_data.get('email', \<dots>)\<close>;
  every other path falls through to \<^verbatim>\<open>return None\<close>.\<close>

definition test_token :: "http_outcome \<Rightarrow> json option \<times> log_call list" where
  "test_token outcome =
     (case outcome of
        Inl e \<Rightarrow> (None, [(Error, ''Token validation error: %s'', [AExc e])])
      | Inr response \<Rightarrow>
         (if status_code response = 200 then
            (case json_body response of
               Inl e \<Rightarrow> (None, [(Error, ''Token validation error: %s'', [AExc e])])
             | Inr user_data \<Rightarrow>
                (case dict_get user_data ''email'' (JStr ''Unknown'') of
                   Inl e \<Rightarrow> (None, [(Error, ''Token validation error: %s'', [AExc e])])
                 | Inr email \<Rightarrow>
                    (Some user_data, [(Info, ''Token valid for user: %s'', [AJson email])])))
          else if status_code response = 401 then
            (None, [(Error, ''Invalid API token'', [])])
          else
            (None, [(Error, ''Token validation failed: HTTP %d'', [AInt (status_code response)])])))"

text \<open>
  Registration talks to the registry request by request.  The registry is a state
  machine: a request and the current state give an outcome and the next state, so that
  a second POST of the same node can be answered differently from the first.
\<close>

datatype request = POST_nodes json | PATCH_node json json

type_synonym 's server = "'s \<Rightarrow> request \<Rightarrow> http_outcome \<times> 's"

type_synonym exchange = "request \<times> http_outcome"

text \<open>\<^verbatim>\<open>x[:8]\<close>, as the log lines apply it to \<^verbatim>\<open>node['node_id']\<close>.\<close>

fun slice8 :: "json \<Rightarrow> exc + json" where
  "slice8 (JStr s) = Inr (JStr (take 8 s))"
| "slice8 (JArr xs) = Inr (JArr (take 8 xs))"
| "slice8 _ = Inl TypeError"

definition opt_str :: "string option \<Rightarrow> json" where
  "opt_str x = (case x of None \<Rightarrow> JNull | Some s \<Rightarrow> JStr s)"

text \<open>The dict \<^verbatim>\<open>node_data\<close> of \<^verbatim>\<open>_register_single_node\<close>, built before the \<^verbatim>\<open>try\<close>.
  Every key it reads exists in a record from a discoverer; the one step that can raise
  is \<^verbatim>\<open>.get('used', 0)\<close> on the record's bandwidth, which is the status document's.\<close>

definition registration_payload :: "node_record \<Rightarrow> exc + json" where
  "registration_payload node =
     seq (dict_get (bandwidth node) ''used'' (JInt 0)) (\<lambda>bandwidth_used.
     Inr (JObj
       [(''nodeId'', node_id node),
        (''name'', JStr (name node)),
        (''address'', JStr (address node)),
        (''port'', JInt (storage_port node)),
        (''dashboardPort'', JInt (dashboard_port node)),
        (''version'', version node),
        (''status'', JStr (status node)),
        (''allocatedSpace'', total' (disk_space node)),
        (''usedSpace'', used (disk_space node)),
        (''availableSpace'', available (disk_space node)),
        (''bandwidthUsed'', bandwidth_used),
        (''uptime'', uptime node),
        (''lastSeen'', last_contact node),
        (''config'', JObj
          [(''detectedFrom'', JStr (detected_from node)),
           (''containerId'', opt_str (container_id node)),
           (''containerName'', opt_str (container_name node)),
           (''image'', opt_str (image' node))])]))"

definition try_except :: "exc + 'a \<Rightarrow> (exc \<Rightarrow> exc + 'a) \<Rightarrow> exc + 'a" where
  "try_except body handler = (case body of Inl e \<Rightarrow> handler e | Inr x \<Rightarrow> Inr x)"

text \<open>
  A registration step returns its verdict, the registry's next state and the exchanges
  it had.  Each log line that slices the identity is a point where the step can raise;
  inside the \<^verbatim>\<open>try\<close> that lands in the handler, whose own log line slices again.
\<close>

definition update_existing_node ::
    "'s server \<Rightarrow> 's \<Rightarrow> node_record \<Rightarrow> json \<Rightarrow> exc + (bool \<times> 's \<times> exchange list)" where
  "update_existing_node srv s node node_data =
     (case srv s (PATCH_node (node_id node) node_data) of
        (outcome, s') \<Rightarrow>
          try_except
            (case outcome of
               Inl e \<Rightarrow> Inl e
             | Inr response \<Rightarrow>
                (if status_code response = 200 \<or> status_code response = 204
                 then seq (slice8 (node_id node)) (\<lambda>_.
                        Inr (True, s', [(PATCH_node (node_id node) node_data, outcome)]))
                 else seq (slice8 (node_id node)) (\<lambda>_.
                        Inr (False, s', [(PATCH_node (node_id node) node_data, outcome)]))))
            (\<lambda>e. seq (slice8 (node_id node)) (\<lambda>_.
                        Inr (False, s', [(PATCH_node (node_id node) node_data, outcome)]))))"

definition register_single_node ::
    "'s server \<Rightarrow> 's \<Rightarrow> node_record \<Rightarrow> exc + (bool \<times> 's \<times> exchange list)" where
  "register_single_node srv s node =
     seq (registration_payload node) (\<lambda>node_data.
       (case srv s (POST_nodes node_data) of
          (outcome, s') \<Rightarrow>
            try_except
              (case outcome of
                 Inl e \<Rightarrow> Inl e
               | Inr response \<Rightarrow>
                  (if status_code response = 200 \<or> status_code response = 201 then
                     seq (slice8 (node_id node)) (\<lambda>_.
                       Inr (True, s', [(POST_nodes node_data, outcome)]))
                   else if status_code response = 409 then
                     seq (slice8 (node_id node)) (\<lambda>_.
                     seq (update_existing_node srv s' node node_data) (\<lambda>(ok, s'', ex).
                       Inr (ok, s'', (POST_nodes node_data, outcome) # ex)))
                   else if status_code response = 401 then
                     Inr (False, s', [(POST_nodes node_data, outcome)])
                   else
                     seq (text_body response) (\<lambda>error_text.
                     seq (slice8 (node_id node)) (\<lambda>_.
                       Inr (False, s', [(POST_nodes node_data, outcome)])))))
              (\<lambda>e. seq (slice8 (node_id node)) (\<lambda>_.
                       Inr (False, s', [(POST_nodes node_data, outcome)])))))"

text \<open>The loop of \<^verbatim>\<open>register_nodes\<close> with its counter, and the function itself.\<close>

fun register_loop ::
    "'s server \<Rightarrow> 's \<Rightarrow> node_record list \<Rightarrow> nat \<Rightarrow> exchange list \<Rightarrow> exc + (nat \<times> 's \<times> exchange list)" where
  "register_loop srv s [] registered_count tr = Inr (registered_count, s, tr)"
| "register_loop srv s (node # rest) registered_count tr =
     (case register_single_node srv s node of
        Inl e \<Rightarrow> Inl e
      | Inr (ok, s', ex) \<Rightarrow>
          register_loop srv s' rest
            (if ok then registered_count + 1 else registered_count) (tr @ ex))"

definition register_nodes ::
    "'s server \<Rightarrow> 's \<Rightarrow> node_record list \<Rightarrow> exc + (nat \<times> 's \<times> exchange list)" where
  "register_nodes srv s nodes =
     (if nodes = [] then Inr (0, s, []) else register_loop srv s nodes 0 [])"

text \<open>
  For the results on registration: the verdict and exchanges of each record in turn,
  and the rule of success read off a record's exchanges.
\<close>

fun attempts :: "'s server \<Rightarrow> 's \<Rightarrow> node_record list \<Rightarrow> (bool \<times> exchange list) list" where
  "attempts srv s [] = []"
| "attempts srv s (node # rest) =
     (case register_single_node srv s node of
        Inl e \<Rightarrow> []
      | Inr (ok, s', ex) \<Rightarrow> (ok, ex) # attempts srv s' rest)"

definition status_in :: "http_outcome \<Rightarrow> int list \<Rightarrow> bool" where
  "status_in outcome codes =
     (case outcome of Inl e \<Rightarrow> False | Inr response \<Rightarrow> status_code response \<in> set codes)"

fun accepted :: "node_record \<Rightarrow> exchange list \<Rightarrow> bool" where
  "accepted node [(POST_nodes p, posted)] =
     (registration_payload node = Inr p \<and> status_in posted [200, 201])"
| "accepted node [(POST_nodes p, posted), (PATCH_node i p', patched)] =
     (registration_payload node = Inr p \<and> status_in posted [409]
      \<and> i = node_id node \<and> p' = p \<and> status_in patched [200, 204])"
| "accepted node _ = False"

fun well_formed :: "node_record \<Rightarrow> exchange list \<Rightarrow> bool" where
  "well_formed node [(POST_nodes p, posted)] =
     (registration_payload node = Inr p \<and> \<not> status_in posted [409])"
| "well_formed node [(POST_nodes p, posted), (PATCH_node i p', patched)] =
     (registration_payload node = Inr p \<and> status_in posted [409]
      \<and> i = node_id node \<and> p' = p)"
| "well_formed node _ = False"

fun is_obj :: "json \<Rightarrow> bool" where
  "is_obj (JObj kvs) = True"
| "is_obj _ = False"

definition sliceable :: "json \<Rightarrow> bool" where
  "sliceable x = (case slice8 x of Inl e \<Rightarrow> False | Inr y \<Rightarrow> True)"

definition each_ok :: "node_record list \<Rightarrow> (bool \<times> exchange list) list \<Rightarrow> bool" where
  "each_ok nodes as = list_all2 (\<lambda>n a. well_formed n (snd a) \<and> fst a = accepted n (snd a)) nodes as"

definition registered_count :: "exc + (nat \<times> 's \<times> exchange list) \<Rightarrow> nat option" where
  "registered_count r = (case r of Inl e \<Rightarrow> None | Inr (c, s, tr) \<Rightarrow> Some c)"

section \<open>Synchronization (sync.py)\<close>

text \<open>
  One task of a batch makes at most one GET to the node and one PATCH to the registry.
  The tasks of a batch run interleaved; what the scheduler and the network do to a task
  is summed up in the outcomes of its two requests, given per position in the batch.
  Exceptions are those derived from \<^verbatim>\<open>Exception\<close>, a timeout among them.
\<close>

record task_io =
  probe :: http_outcome
  patch :: http_outcome

datatype event = Probed json json | Patched json json

text \<open>The dict \<^verbatim>\<open>update_data\<close> of \<^verbatim>\<open>_update_node\<close>, built before its \<^verbatim>\<open>try\<close>;
  \<open>now\<close> is \<^verbatim>\<open>datetime.utcnow().isoformat()\<close>.\<close>

definition update_data :: "string \<Rightarrow> json \<Rightarrow> exc + json" where
  "update_data now node_data =
     seq (NodeSync_determine_status node_data) (\<lambda>st.
     seq (dict_get node_data ''version'' JNull) (\<lambda>ver.
     seq (disk_field node_data ''used'') (\<lambda>u.
     seq (disk_field node_data ''available'') (\<lambda>a.
     seq (seq (dict_get node_data ''bandwidth'' (JObj [])) (\<lambda>b. dict_get b ''used'' (JInt 0))) (\<lambda>bw.
     seq (dict_get node_data ''uptime'' (JInt 0)) (\<lambda>up.
     seq (dict_get node_data ''reputation'' (JObj [])) (\<lambda>rep.
     seq (dict_get node_data ''satellites'' (JArr [])) (\<lambda>sat.
     seq (seq (dict_get node_data ''reputation'' (JObj [])) (\<lambda>r. dict_get r ''auditScore'' JNull)) (\<lambda>aud.
     seq (seq (dict_get node_data ''reputation'' (JObj [])) (\<lambda>r. dict_get r ''suspensionScore'' JNull)) (\<lambda>sus.
     Inr (JObj
       [(''status'', JStr st), (''version'', ver), (''usedSpace'', u),
        (''availableSpace'', a), (''bandwidthUsed'', bw), (''uptime'', up),
        (''lastSeen'', JStr now), (''reputation'', rep), (''satellites'', sat),
        (''auditScore'', aud), (''suspensionScore'', sus)])))))))))))"

text \<open>The \<^verbatim>\<open>try\<close> of \<^verbatim>\<open>_update_node\<close>: true on 200 or 204, false on any other answer
  and on an exception.\<close>

definition patch_succeeded :: "http_outcome \<Rightarrow> bool" where
  "patch_succeeded outcome =
     (case outcome of
        Inl e \<Rightarrow> False
      | Inr response \<Rightarrow> status_code response = 200 \<or> status_code response = 204)"

text \<open>
  \<^verbatim>\<open>_sync_node\<close>.  Everything runs inside its \<^verbatim>\<open>try\<close>, whose handler logs
  \<^verbatim>\<open>node.get('nodeId', 'unknown')\<close> and returns false; only when the node is not a dict
  does that handler raise in turn.  After a successful update the debug line slices the
  node's identity, and a failure there also ends in the handler.  The result is the
  task's return value or the exception it ends with, and the requests it made.
\<close>

fun sync_node :: "string \<Rightarrow> json \<Rightarrow> task_io \<Rightarrow> (exc + bool) \<times> event list" where
  "sync_node now (JObj node) io =
     (let dashboard_port =
            (if truthy (lookup_default node ''dashboardPort'' JNull)
             then lookup_default node ''dashboardPort'' JNull else JInt 14002);
          address = lookup_default node ''address'' (JStr ''127.0.0.1'')
      in case fetch_node_data (probe io) of
           None \<Rightarrow> (Inr False, [Probed address dashboard_port])
         | Some node_data \<Rightarrow>
            (if \<not> truthy node_data then (Inr False, [Probed address dashboard_port])
             else (case map_of node ''id'' of
                     None \<Rightarrow> (Inr False, [Probed address dashboard_port])
                   | Some registry_id \<Rightarrow>
                      (case update_data now node_data of
                         Inl e \<Rightarrow> (Inr False, [Probed address dashboard_port])
                       | Inr upd \<Rightarrow>
                          (if patch_succeeded (patch io) then
                             (case slice8 (lookup_default node ''nodeId'' (JStr ''unknown'')) of
                                Inl e \<Rightarrow>
                                  (Inr False, [Probed address dashboard_port, Patched registry_id upd])
                              | Inr _ \<Rightarrow>
                                  (Inr True, [Probed address dashboard_port, Patched registry_id upd]))
                           else (Inr False, [Probed address dashboard_port, Patched registry_id upd]))))))"
| "sync_node now _ io = (Inl AttributeError, [])"

text \<open>The GET that \<^verbatim>\<open>_fetch_node_data\<close> of sync.py sends for a registered node: to its
  address (default 127.0.0.1) and its dashboard port (14002 when missing or falsy).\<close>

definition probe_request :: "(string \<times> json) list \<Rightarrow> event" where
  "probe_request node =
     Probed (lookup_default node ''address'' (JStr ''127.0.0.1''))
            (if truthy (lookup_default node ''dashboardPort'' JNull)
             then lookup_default node ''dashboardPort'' JNull else JInt 14002)"

text \<open>
  \<^verbatim>\<open>_sync_batch\<close>: \<^verbatim>\<open>asyncio.gather(*tasks, return_exceptions=True)\<close> runs every task
  to its end and returns, in the order of the tasks, each one's value or exception.
  The successes are the results that are \<^verbatim>\<open>True\<close>; a warning is logged when there is
  any other result.
\<close>

record batch_report =
  results :: "(exc + bool) list"
  events :: "event list"
  logged :: "log_call list"

definition sync_batch :: "string \<Rightarrow> json list \<Rightarrow> (nat \<Rightarrow> task_io) \<Rightarrow> batch_report" where
  "sync_batch now nodes io =
     (let tasks = map (\<lambda>i. sync_node now (nodes ! i) (io i)) [0..<length nodes];
          success_count = length (filter (\<lambda>r. r = Inr True) (map fst tasks));
          error_count = length tasks - success_count
      in \<lparr>results = map fst tasks,
          events = concat (map snd tasks),
          logged = (if error_count > 0
                    then [(Warning, ''Batch sync: %d success, %d errors'',
                           [AInt (int success_count), AInt (int error_count)])]
                    else [])\<rparr>)"

text \<open>\<^verbatim>\<open>_get_registered_nodes\<close>: the value under \<^verbatim>\<open>nodes\<close> of a 200 answer, the empty
  list in every other case.\<close>

definition get_registered_nodes :: "http_outcome \<Rightarrow> json" where
  "get_registered_nodes outcome =
     (case outcome of
        Inl e \<Rightarrow> JArr []
      | Inr response \<Rightarrow>
         (if status_code response = 200 then
            (case json_body response of
               Inl e \<Rightarrow> JArr []
             | Inr data \<Rightarrow>
                (case dict_get data ''nodes'' (JArr []) of Inl e \<Rightarrow> JArr [] | Inr nodes \<Rightarrow> nodes))
          else JArr []))"

text \<open>\<^verbatim>\<open>len(nodes)\<close>, and what slicing \<^verbatim>\<open>nodes\<close> and iterating over the slice gives:
  the elements of a list, the characters of a string; a dict cannot be sliced.\<close>

fun py_len :: "json \<Rightarrow> exc + nat" where
  "py_len (JStr s) = Inr (length s)"
| "py_len (JArr xs) = Inr (length xs)"
| "py_len (JObj kvs) = Inr (length kvs)"
| "py_len _ = Inl TypeError"

fun sliced_items :: "json \<Rightarrow> exc + json list" where
  "sliced_items (JArr xs) = Inr xs"
| "sliced_items (JStr s) = Inr (map (\<lambda>c. JStr [c]) s)"
| "sliced_items _ = Inl TypeError"

text \<open>
  \<^verbatim>\<open>_sync_cycle\<close>.  \<^verbatim>\<open>range(0, len(nodes), batch_size)\<close> raises for a step of 0, is
  empty for a negative step, and otherwise starts a batch at every multiple of the
  step below the length; batch \<open>k\<close> is \<^verbatim>\<open>nodes[k*b : k*b + b]\<close>.  The batches run one
  after the other; \<open>io\<close> gives the request outcomes by position in the node list.
  The body is the \<^verbatim>\<open>try\<close> block, the cycle wraps it in the handler, which logs.
\<close>

definition sync_cycle_body ::
    "string \<Rightarrow> int \<Rightarrow> http_outcome \<Rightarrow> (nat \<Rightarrow> task_io) \<Rightarrow> exc + batch_report list" where
  "sync_cycle_body now batch_size listing io =
     (let nodes = get_registered_nodes listing in
      if \<not> truthy nodes then Inr []
      else seq (py_len nodes) (\<lambda>n.
             if batch_size = 0 then Inl ValueError
             else if batch_size < 0 then Inr []
             else seq (sliced_items nodes) (\<lambda>xs.
                    Inr (map (\<lambda>k. sync_batch now
                                     (take (nat batch_size) (drop (k * nat batch_size) xs))
                                     (\<lambda>j. io (k * nat batch_size + j)))
                             [0..<(n + nat batch_size - 1) div nat batch_size]))))"

datatype cycle_end = Completed "batch_report list" | Failed exc

definition sync_cycle ::
    "string \<Rightarrow> int \<Rightarrow> http_outcome \<Rightarrow> (nat \<Rightarrow> task_io) \<Rightarrow> exc + cycle_end" where
  "sync_cycle now batch_size listing io =
     (case sync_cycle_body now batch_size listing io of
        Inl e \<Rightarrow> Inr (Failed e)
      | Inr reports \<Rightarrow> Inr (Completed reports))"

section \<open>Example inputs\<close>

definition disqualified_doc :: json where
  "disqualified_doc =
     JObj [(''lastContactSuccess'', JStr ''2024-01-01T00:00:00Z''), (''disqualified'', JBool True)]"

definition suspended_doc :: "(string \<times> json) list" where
  "suspended_doc =
     [(''nodeID'', JStr ''1abc''),
      (''lastContactSuccess'', JStr ''2024-01-01T00:00:00Z''),
      (''reputation'', JObj [(''auditScore'', JFloat (Finite (1 / 2))),
                             (''suspensionScore'', JFloat (Finite lit_0_1))])]"

definition example_attrs :: container_attrs where
  "example_attrs =
     \<lparr>Name = ''/storagenode'', Image = ''storjlabs/storagenode:latest'',
      Ports = [(''28967/tcp'', Some [\<lparr>HostIp = ''0.0.0.0'', HostPort = ''28967''\<rparr>]),
               (''14002/tcp'', Some [\<lparr>HostIp = ''0.0.0.0'', HostPort = ''15002''\<rparr>])],
      Env = [''PATH=/usr/bin'', ''CONSOLE_ADDRESS=127.0.0.1:14099'']\<rparr>"

definition example_float_ops :: float_ops where
  "example_float_ops = \<lparr>float_add = (\<lambda>x y. NaN), float_of_int = (\<lambda>i. Inr (Finite (of_int i)))\<rparr>"

definition example_doc :: json where
  "example_doc =
     JObj [(''diskSpace'', JObj [(''used'', JInt 100), (''available'', JInt 900)]),
           (''lastContactSuccess'', JStr ''2024-01-01T00:00:00Z'')]"

definition example_reply :: http_reply where
  "example_reply = \<lparr>status_code = 200, json_body = Inr example_doc, text_body = Inr []\<rparr>"

definition example_node :: node_record where
  "example_node =
     \<lparr>node_id = JStr [], name = ''Node-14002'', address = ''10.0.0.1'',
      dashboard_port = 14002, storage_port = 28967, version = JStr [],
      status = ''ONLINE'',
      disk_space = \<lparr>used = JInt 100, available = JInt 900, total' = JInt 1000\<rparr>,
      bandwidth = JObj [], uptime = JInt 0,
      last_contact = JStr ''2024-01-01T00:00:00Z'', container_id = None,
      container_name = None, image' = None, detected_from = ''port_scan''\<rparr>"

definition node_a :: node_record where
  "node_a = example_node\<lparr>node_id := JStr ''1abc'', name := ''storagenode'',
      address := ''127.0.0.1'', container_id := Some ''f00d'',
      container_name := Some ''storagenode'', image' := Some ''storjlabs/storagenode:latest'',
      detected_from := ''docker''\<rparr>"

definition node_b :: node_record where
  "node_b = example_node\<lparr>node_id := JStr ''1abc'', status := ''WARNING''\<rparr>"

definition node_c :: node_record where
  "node_c = example_node\<lparr>node_id := JStr ''2def'', name := ''Node-14003'',
      dashboard_port := 14003\<rparr>"

text \<open>A registry that knows the identities it has accepted, refuses one identity as
  unauthorized, and two registries that answer with other 2xx codes.\<close>

definition reply_with :: "int \<Rightarrow> http_reply" where
  "reply_with code = \<lparr>status_code = code, json_body = Inr (JObj []), text_body = Inr []\<rparr>"

definition example_registry :: "json list server" where
  "example_registry s req =
     (case req of
        POST_nodes p \<Rightarrow>
          (case dict_get p ''nodeId'' JNull of
             Inl e \<Rightarrow> (Inr (reply_with 400), s)
           | Inr i \<Rightarrow>
              (if i = JStr ''2def'' then (Inr (reply_with 401), s)
               else if i \<in> set s then (Inr (reply_with 409), s)
               else (Inr (reply_with 201), i # s)))
      | PATCH_node i p \<Rightarrow> (Inr (reply_with 200), s))"

definition always_202 :: "unit server" where
  "always_202 s req = (Inr (reply_with 202), s)"

definition conflict_then_201 :: "unit server" where
  "conflict_then_201 s req =
     (case req of POST_nodes p \<Rightarrow> (Inr (reply_with 409), s)
                | PATCH_node i p \<Rightarrow> (Inr (reply_with 201), s))"

definition account_reply :: http_reply where
  "account_reply = \<lparr>status_code = 200,
      json_body = Inr (JObj [(''email'', JStr ''op@example.org''), (''permissions'', JArr [])]),
      text_body = Inr []\<rparr>"

definition error_reply :: "int \<Rightarrow> http_reply" where
  "error_reply code = \<lparr>status_code = code, json_body = Inl ValueError, text_body = Inr ''internal error''\<rparr>"

text \<open>A batch of five registered nodes in which the probe of the third times out.\<close>

definition registry_node :: "int \<Rightarrow> json" where
  "registry_node k =
     JObj [(''id'', JInt k), (''nodeId'', JStr ''1abc''), (''address'', JStr ''10.0.0.1''),
           (''dashboardPort'', JInt (14002 + k))]"

definition five_nodes :: "json list" where
  "five_nodes = [registry_node 0, registry_node 1, registry_node 2, registry_node 3, registry_node 4]"

definition five_io :: "nat \<Rightarrow> task_io" where
  "five_io i =
     (if i = 2 then \<lparr>probe = Inl TimeoutError, patch = Inr (reply_with 200)\<rparr>
      else \<lparr>probe = Inr example_reply, patch = Inr (reply_with 200)\<rparr>)"

definition env_only_attrs :: container_attrs where
  "env_only_attrs = example_attrs\<lparr>Ports := [(''14002/tcp'', None)]\<rparr>"

definition range_only_attrs :: container_attrs where
  "range_only_attrs =
     example_attrs\<lparr>Ports := [(''14002/tcp'', None),
                              (''14777/tcp'', Some [\<lparr>HostIp = ''0.0.0.0'', HostPort = ''7777''\<rparr>])],
                    Env := [''PATH=/usr/bin'']\<rparr>"

definition example_container :: container where
  "example_container = \<lparr>cid = ''f00d'', reload = Inr example_attrs\<rparr>"

definition docker_example_node :: node_record where
  "docker_example_node =
     example_node\<lparr>name := ''storagenode'', address := ''127.0.0.1'', dashboard_port := 15002,
        container_id := Some ''f00d'', container_name := Some ''storagenode'',
        image' := Some ''storjlabs/storagenode:latest'', detected_from := ''docker''\<rparr>"

definition five_listing :: http_reply where
  "five_listing = \<lparr>status_code = 200, json_body = Inr (JObj [(''nodes'', JArr five_nodes)]),
                   text_body = Inr []\<rparr>"

section \<open>Health classification: results\<close>

text \<open>
  Claim C1.  A document with a successful last contact that marks the node as
  disqualified is classified DISQUALIFIED by the sync classifier only.  At the document
  \<^verbatim>\<open>{"lastContactSuccess": "2024-01-01T00:00:00Z", "disqualified": true}\<close> the two
  discovery classifiers, which have no disqualification test, answer ONLINE.
\<close>

theorem discovery_ignores_disqualified:
  "DockerDiscovery_determine_status disqualified_doc = Inr ''ONLINE''
   \<and> PortScanner_determine_status disqualified_doc = Inr ''ONLINE''
   \<and> NodeSync_determine_status disqualified_doc = Inr ''DISQUALIFIED''"
  by (simp add: disqualified_doc_def lookup_default_def)

text \<open>The sync classifier does satisfy the rule, on every document.\<close>

lemma NodeSync_disqualified:
  assumes "truthy (lookup_default d ''lastContactSuccess'' JNull)"
    and "truthy (lookup_default d ''disqualified'' JNull)"
  shows "NodeSync_determine_status (JObj d) = Inr ''DISQUALIFIED''"
  using assms by simp

text \<open>
  Claim C7.  A document with a successful last contact, not marked disqualified, whose
  reputation block has suspension score 0.1 and audit score 0.5 is classified SUSPENDED
  by each of the three classifiers: the suspension test comes first and decides.
\<close>

theorem suspension_before_audit:
  assumes "truthy (lookup_default d ''lastContactSuccess'' JNull)"
    and "\<not> truthy (lookup_default d ''disqualified'' JNull)"
    and "map_of d ''reputation'' = Some (JObj rep)"
    and "map_of rep ''suspensionScore'' = Some (JFloat (Finite lit_0_1))"
    and "map_of rep ''auditScore'' = Some (JFloat (Finite (1 / 2)))"
  shows "NodeSync_determine_status (JObj d) = Inr ''SUSPENDED''
     \<and> DockerDiscovery_determine_status (JObj d) = Inr ''SUSPENDED''
     \<and> PortScanner_determine_status (JObj d) = Inr ''SUSPENDED''"
  using assms by (simp add: lookup_default_def lit_0_1_def)

theorem suspension_before_audit_witness:
  "NodeSync_determine_status (JObj suspended_doc) = Inr ''SUSPENDED''
     \<and> DockerDiscovery_determine_status (JObj suspended_doc) = Inr ''SUSPENDED''
     \<and> PortScanner_determine_status (JObj suspended_doc) = Inr ''SUSPENDED''"
  by (rule suspension_before_audit
        [of suspended_doc "[(''auditScore'', JFloat (Finite (1 / 2))),
                            (''suspensionScore'', JFloat (Finite lit_0_1))]"])
     (simp_all add: suspended_doc_def lookup_default_def)

text \<open>
  Claim C10.  The two discovery classifiers agree on every document, dict or not,
  including the documents on which they raise.
\<close>

theorem discovery_classifiers_equal:
  "DockerDiscovery_determine_status d = PortScanner_determine_status d"
  by (cases d) simp_all

section \<open>Port resolution: results\<close>

lemmas py_int_eval = py_int_def strip_def is_space_def is_digit_def digit_val_def

text \<open>Decimal strings are read back by \<open>py_int\<close> as the number they print.\<close>

lemma digit_char_props:
  assumes "d < 10"
  shows "is_digit (digit_char d) \<and> digit_val (digit_char d) = d \<and> \<not> is_space (digit_char d)
       \<and> digit_char d \<noteq> CHR ''-'' \<and> digit_char d \<noteq> CHR ''+''"
proof -
  from assms have "d \<in> {0, 1, 2, 3, 4, 5, 6, 7, 8, 9}" by auto
  then show ?thesis
    by (auto simp: digit_char_def is_digit_def digit_val_def is_space_def)
qed

lemma digits_from_str_of_nat:
  "digits_from need (str_of_nat n @ ys) acc
     = digits_from False ys (acc * 10 ^ length (str_of_nat n) + n)"
proof (induction n arbitrary: need acc ys rule: str_of_nat.induct)
  case (1 n)
  show ?case
  proof (cases "n < 10")
    case True
    then show ?thesis
      using digit_char_props [of n] by (simp add: str_of_nat.simps [of n] mult.commute)
  next
    case False
    have m: "n mod 10 < 10" by simp
    have "digits_from need (str_of_nat n @ ys) acc
        = digits_from need (str_of_nat (n div 10) @ (digit_char (n mod 10) # ys)) acc"
      using False by (simp add: str_of_nat.simps [of n])
    also have "\<dots> = digits_from False (digit_char (n mod 10) # ys)
                      (acc * 10 ^ length (str_of_nat (n div 10)) + n div 10)"
      using "1.IH" [OF False] by simp
    also have "\<dots> = digits_from False ys
                      (10 * (acc * 10 ^ length (str_of_nat (n div 10)) + n div 10) + n mod 10)"
      using digit_char_props [OF m] by simp
    also have "\<dots> = digits_from False ys (acc * 10 ^ length (str_of_nat n) + n)"
      using False by (simp add: str_of_nat.simps [of n] algebra_simps)
    finally show ?thesis .
  qed
qed

lemma str_of_nat_chars:
  "str_of_nat n \<noteq> [] \<and> (\<forall>c \<in> set (str_of_nat n). \<not> is_space c \<and> c \<noteq> CHR ''-'' \<and> c \<noteq> CHR ''+'')"
proof (induction n rule: str_of_nat.induct)
  case (1 n)
  show ?case
  proof (cases "n < 10")
    case True
    then show ?thesis using digit_char_props [of n] by (simp add: str_of_nat.simps [of n])
  next
    case False
    have m: "n mod 10 < 10" by simp
    show ?thesis
      using "1.IH" [OF False] False digit_char_props [OF m]
      by (simp add: str_of_nat.simps [of n])
  qed
qed

lemma strip_no_space:
  assumes "s \<noteq> []" "\<forall>c \<in> set s. \<not> is_space c"
  shows "strip s = s"
proof -
  have a: "dropWhile is_space s = s" using assms by (cases s) auto
  have "rev s \<noteq> []" "\<forall>c \<in> set (rev s). \<not> is_space c" using assms by auto
  then have b: "dropWhile is_space (rev s) = rev s" by (cases "rev s") auto
  show ?thesis by (simp add: strip_def a b)
qed

lemma py_int_str_of_nat: "py_int (str_of_nat n) = Inr (int n)"
proof -
  obtain c cs where s: "str_of_nat n = c # cs"
    using str_of_nat_chars [of n] by (cases "str_of_nat n") auto
  have st: "strip (str_of_nat n) = str_of_nat n"
    using str_of_nat_chars [of n] by (intro strip_no_space) auto
  have c: "c \<noteq> CHR ''-''" "c \<noteq> CHR ''+''"
    using str_of_nat_chars [of n] s by auto
  have "digits_from True (str_of_nat n @ []) 0 = Some n"
    by (subst digits_from_str_of_nat) simp
  then have "digits_from True (c # cs) 0 = Some n" using s by simp
  then show ?thesis using st s c by (simp add: py_int_def)
qed

text \<open>
  Claim C8.  When the attributes hold a non-empty binding list for \<^verbatim>\<open>14002/tcp\<close>, the
  resolved status port is \<^verbatim>\<open>int\<close> of its first binding's host port (so the number
  itself when the host port is its decimal string), whatever the environment says:
  replacing the environment does not change the result.  Only without such a binding
  is the \<^verbatim>\<open>CONSOLE_ADDRESS\<close> variable read, and only when no variable resolves is the
  range rule over the mapped ports used.
\<close>

theorem port_precedence:
  "(map_of (Ports attrs) ''14002/tcp'' = Some (Some (b # bs)) \<longrightarrow>
       get_dashboard_port attrs = found (py_int (HostPort b))
     \<and> (\<forall>p. HostPort b = str_of_nat p \<longrightarrow> get_dashboard_port attrs = Inr (Some (int p)))
     \<and> (\<forall>env. get_dashboard_port (attrs\<lparr>Env := env\<rparr>) = get_dashboard_port attrs))
   \<and> ((\<forall>b bs. map_of (Ports attrs) ''14002/tcp'' \<noteq> Some (Some (b # bs))) \<longrightarrow>
       get_dashboard_port attrs =
         (case env_address_port ''CONSOLE_ADDRESS='' (Env attrs) of
            Some r \<Rightarrow> found r
          | None \<Rightarrow> range_port (Ports attrs)))"
proof (intro conjI impI allI)
  assume m: "map_of (Ports attrs) ''14002/tcp'' = Some (Some (b # bs))"
  then show g: "get_dashboard_port attrs = found (py_int (HostPort b))"
    by (simp add: get_dashboard_port_def)
  show "get_dashboard_port (attrs\<lparr>Env := env\<rparr>) = get_dashboard_port attrs" for env
    using m by (simp add: get_dashboard_port_def)
  show "get_dashboard_port attrs = Inr (Some (int p))" if "HostPort b = str_of_nat p" for p
    using g that by (simp add: py_int_str_of_nat found_def)
next
  assume n: "\<forall>b bs. map_of (Ports attrs) ''14002/tcp'' \<noteq> Some (Some (b # bs))"
  show "get_dashboard_port attrs =
         (case env_address_port ''CONSOLE_ADDRESS='' (Env attrs) of
            Some r \<Rightarrow> found r
          | None \<Rightarrow> range_port (Ports attrs))"
  proof (cases "map_of (Ports attrs) ''14002/tcp''")
    case None
    then show ?thesis by (simp add: get_dashboard_port_def)
  next
    case (Some m)
    show ?thesis
    proof (cases m)
      case None
      with Some show ?thesis by (simp add: get_dashboard_port_def)
    next
      case (Some l)
      with n \<open>map_of (Ports attrs) ''14002/tcp'' = Some m\<close> have "l = []"
        by (cases l) auto
      with Some \<open>map_of (Ports attrs) ''14002/tcp'' = Some m\<close> show ?thesis
        by (simp add: get_dashboard_port_def)
    qed
  qed
qed

theorem port_precedence_witness:
  "get_dashboard_port example_attrs = Inr (Some 15002)
   \<and> env_address_port ''CONSOLE_ADDRESS='' (Env example_attrs) = Some (Inr 14099)
   \<and> get_dashboard_port (example_attrs\<lparr>Env := []\<rparr>) = Inr (Some 15002)
   \<and> get_dashboard_port env_only_attrs = Inr (Some 14099)
   \<and> get_dashboard_port range_only_attrs = Inr (Some 7777)"
proof -
  let ?b = "\<lparr>HostIp = ''0.0.0.0'', HostPort = ''15002''\<rparr>"
  have m: "map_of (Ports example_attrs) ''14002/tcp'' = Some (Some [?b])"
    by (simp add: example_attrs_def)
  have d: "HostPort ?b = str_of_nat 15002"
    by (simp add: str_of_nat.simps digit_char_def)
  have e: "env_address_port ''CONSOLE_ADDRESS='' (Env example_attrs) = Some (Inr 14099)"
    by (simp add: example_attrs_def startswith_def split1_second_def split_last_def py_int_eval)
  from port_precedence [of example_attrs ?b "[]"] m d
  have one: "get_dashboard_port example_attrs = Inr (Some 15002)"
    and env: "get_dashboard_port (example_attrs\<lparr>Env := []\<rparr>) = get_dashboard_port example_attrs"
    by auto
  have n1: "\<forall>b bs. map_of (Ports env_only_attrs) ''14002/tcp'' \<noteq> Some (Some (b # bs))"
    by (simp add: env_only_attrs_def)
  have e1: "env_address_port ''CONSOLE_ADDRESS='' (Env env_only_attrs) = Some (Inr 14099)"
    using e by (simp add: env_only_attrs_def)
  from port_precedence [of env_only_attrs] n1 e1
  have two: "get_dashboard_port env_only_attrs = Inr (Some 14099)"
    by (simp add: found_def)
  have n2: "\<forall>b bs. map_of (Ports range_only_attrs) ''14002/tcp'' \<noteq> Some (Some (b # bs))"
    by (simp add: range_only_attrs_def)
  have e2: "env_address_port ''CONSOLE_ADDRESS='' (Env range_only_attrs) = None"
    by (simp add: range_only_attrs_def startswith_def)
  have r2: "range_port (Ports range_only_attrs) = Inr (Some 7777)"
    by (simp add: range_only_attrs_def endswith_def split_first_def found_def py_int_eval)
  from port_precedence [of range_only_attrs] n2 e2 r2
  have three: "get_dashboard_port range_only_attrs = Inr (Some 7777)"
    by simp
  from one env e two three show ?thesis by simp
qed

section \<open>Record construction: results\<close>

lemma seq_Inr_iff: "(seq m f = Inr y) = (\<exists>x. m = Inr x \<and> f x = Inr y)"
  by (cases m) (simp_all add: seq_def)

lemma seq_Inr [simp]: "seq (Inr x) f = f x"
  by (simp add: seq_def)

lemma seq_Inl [simp]: "seq (Inl e) f = Inl e"
  by (simp add: seq_def)

lemma py_add_ints: "py_add fl (JInt u) (JInt a) = Inr (JInt (u + a))"
  by (simp add: py_add_def)

lemma disk_space_of_sum:
  assumes "disk_space_of fl node_data = Inr ds"
  shows "disk_field node_data ''used'' = Inr (used ds)
       \<and> disk_field node_data ''available'' = Inr (available ds)
       \<and> py_add fl (used ds) (available ds) = Inr (total' ds)"
  using assms unfolding disk_space_of_def seq_Inr_iff by auto

lemma PortScanner_node_dict_disk:
  assumes "PortScanner_node_dict fl host port node_data = Inr node"
  shows "disk_space_of fl node_data = Inr (disk_space node)"
  using assms unfolding PortScanner_node_dict_def seq_Inr_iff by auto

lemma DockerDiscovery_node_dict_disk:
  assumes "DockerDiscovery_node_dict fl c attrs host port node_data = Inr node"
  shows "disk_space_of fl node_data = Inr (disk_space node)"
  using assms unfolding DockerDiscovery_node_dict_def seq_Inr_iff by auto

lemma check_port_Some:
  assumes "check_port fl host port outcome = Some node"
  shows "\<exists>reply node_data. outcome = Inr reply \<and> status_code reply = 200
          \<and> json_body reply = Inr node_data
          \<and> PortScanner_node_dict fl host port node_data = Inr node"
  using assms unfolding check_port_def by (auto split: sum.splits if_splits)

lemma fetch_node_data_Some:
  "fetch_node_data outcome = Some doc \<Longrightarrow>
     \<exists>reply. outcome = Inr reply \<and> status_code reply = 200 \<and> json_body reply = Inr doc"
  unfolding fetch_node_data_def by (auto split: sum.splits if_splits)

lemma extract_node_info_Some:
  assumes "extract_node_info fl http_get c = Some node"
  shows "\<exists>attrs port node_data. reload c = Inr attrs
          \<and> get_dashboard_port attrs = Inr (Some port) \<and> port \<noteq> 0
          \<and> fetch_node_data (http_get ''127.0.0.1'' port) = Some node_data \<and> truthy node_data
          \<and> DockerDiscovery_node_dict fl c attrs ''127.0.0.1'' port node_data = Inr node"
  using assms unfolding extract_node_info_def
  by (auto split: sum.splits if_splits option.splits)

text \<open>A document whose disk figures are ints (or absent) and that can be classified
  does give a record, with the integer sum as its total.\<close>

lemma disk_space_of_ints:
  assumes "disk_field node_data ''used'' = Inr (JInt u)"
      and "disk_field node_data ''available'' = Inr (JInt a)"
  shows "disk_space_of fl node_data
           = Inr \<lparr>used = JInt u, available = JInt a, total' = JInt (u + a)\<rparr>"
  using assms by (simp add: disk_space_of_def py_add_ints)

lemma check_port_constructs:
  assumes "status_code reply = 200" and "json_body reply = Inr (JObj nd)"
      and "disk_field (JObj nd) ''used'' = Inr (JInt u)"
      and "disk_field (JObj nd) ''available'' = Inr (JInt a)"
      and "PortScanner_determine_status (JObj nd) = Inr st"
  shows "\<exists>node. check_port fl host port (Inr reply) = Some node
           \<and> disk_space node = \<lparr>used = JInt u, available = JInt a, total' = JInt (u + a)\<rparr>"
  using assms disk_space_of_ints [OF assms(3,4), of fl]
  by (simp add: check_port_def PortScanner_node_dict_def)

lemma extract_node_info_constructs:
  assumes "reload c = Inr attrs" and "get_dashboard_port attrs = Inr (Some port)" and "port \<noteq> 0"
      and "http_get ''127.0.0.1'' port = Inr reply"
      and "status_code reply = 200" and "json_body reply = Inr (JObj nd)" and "nd \<noteq> []"
      and "get_storage_port attrs = Inr sp"
      and "disk_field (JObj nd) ''used'' = Inr (JInt u)"
      and "disk_field (JObj nd) ''available'' = Inr (JInt a)"
      and "DockerDiscovery_determine_status (JObj nd) = Inr st"
  shows "\<exists>node. extract_node_info fl http_get c = Some node
           \<and> disk_space node = \<lparr>used = JInt u, available = JInt a, total' = JInt (u + a)\<rparr>"
  using assms disk_space_of_ints [OF assms(9,10), of fl]
  by (simp add: extract_node_info_def fetch_node_data_def DockerDiscovery_node_dict_def)

text \<open>
  Claim C9.  In every record either discoverer builds, \<open>used\<close> and \<open>available\<close> are the
  document's \<^verbatim>\<open>diskSpace.used\<close> and \<^verbatim>\<open>diskSpace.available\<close> (0 where absent), and
  \<open>total'\<close> is their Python sum: the integer \<open>u + a\<close> exactly when both are ints.  The
  total is a function of these two values alone, so no other field of the document,
  a \<^verbatim>\<open>total\<close> of its own included, reaches it.
\<close>

theorem disk_total_derived:
  "(check_port fl host port outcome = Some node \<longrightarrow>
      (\<exists>reply node_data. outcome = Inr reply \<and> json_body reply = Inr node_data
         \<and> disk_field node_data ''used'' = Inr (used (disk_space node))
         \<and> disk_field node_data ''available'' = Inr (available (disk_space node))))
   \<and> (extract_node_info fl http_get c = Some node \<longrightarrow>
      (\<exists>attrs port node_data. reload c = Inr attrs \<and> get_dashboard_port attrs = Inr (Some port)
         \<and> fetch_node_data (http_get ''127.0.0.1'' port) = Some node_data
         \<and> disk_field node_data ''used'' = Inr (used (disk_space node))
         \<and> disk_field node_data ''available'' = Inr (available (disk_space node))))
   \<and> (check_port fl host port outcome = Some node \<or> extract_node_info fl http_get c = Some node \<longrightarrow>
        py_add fl (used (disk_space node)) (available (disk_space node))
          = Inr (total' (disk_space node))
        \<and> (\<forall>u a. used (disk_space node) = JInt u \<and> available (disk_space node) = JInt a
              \<longrightarrow> total' (disk_space node) = JInt (u + a)))"
proof (intro conjI impI)
  assume "check_port fl host port outcome = Some node"
  then obtain reply node_data where o: "outcome = Inr reply" "json_body reply = Inr node_data"
      and d: "PortScanner_node_dict fl host port node_data = Inr node"
    using check_port_Some by blast
  from disk_space_of_sum [OF PortScanner_node_dict_disk [OF d]] o
  show "\<exists>reply node_data. outcome = Inr reply \<and> json_body reply = Inr node_data
         \<and> disk_field node_data ''used'' = Inr (used (disk_space node))
         \<and> disk_field node_data ''available'' = Inr (available (disk_space node))"
    by blast
next
  assume "extract_node_info fl http_get c = Some node"
  then obtain attrs port node_data where o: "reload c = Inr attrs"
       "get_dashboard_port attrs = Inr (Some port)"
       "fetch_node_data (http_get ''127.0.0.1'' port) = Some node_data"
      and d: "DockerDiscovery_node_dict fl c attrs ''127.0.0.1'' port node_data = Inr node"
    using extract_node_info_Some by blast
  from disk_space_of_sum [OF DockerDiscovery_node_dict_disk [OF d]] o
  show "\<exists>attrs port node_data. reload c = Inr attrs \<and> get_dashboard_port attrs = Inr (Some port)
         \<and> fetch_node_data (http_get ''127.0.0.1'' port) = Some node_data
         \<and> disk_field node_data ''used'' = Inr (used (disk_space node))
         \<and> disk_field node_data ''available'' = Inr (available (disk_space node))"
    by blast
next
  assume "check_port fl host port outcome = Some node \<or> extract_node_info fl http_get c = Some node"
  then have "\<exists>node_data. disk_space_of fl node_data = Inr (disk_space node)"
  proof
    assume "check_port fl host port outcome = Some node"
    from check_port_Some [OF this] show ?thesis
      using PortScanner_node_dict_disk by blast
  next
    assume "extract_node_info fl http_get c = Some node"
    from extract_node_info_Some [OF this] show ?thesis
      using DockerDiscovery_node_dict_disk by blast
  qed
  then show s: "py_add fl (used (disk_space node)) (available (disk_space node))
                  = Inr (total' (disk_space node))"
    using disk_space_of_sum by blast
  show "\<forall>u a. used (disk_space node) = JInt u \<and> available (disk_space node) = JInt a
              \<longrightarrow> total' (disk_space node) = JInt (u + a)"
    using s by (auto simp: py_add_ints)
qed

theorem disk_total_derived_witness:
  "check_port example_float_ops ''10.0.0.1'' 14002 (Inr example_reply) = Some example_node
   \<and> extract_node_info example_float_ops (\<lambda>host port. Inr example_reply) example_container
        = Some docker_example_node
   \<and> disk_space example_node = \<lparr>used = JInt 100, available = JInt 900, total' = JInt (100 + 900)\<rparr>
   \<and> disk_space docker_example_node
        = \<lparr>used = JInt 100, available = JInt 900, total' = JInt (100 + 900)\<rparr>"
proof -
  let ?get = "\<lambda>(host :: string) (port :: int). (Inr example_reply :: http_outcome)"
  have c: "check_port example_float_ops ''10.0.0.1'' 14002 (Inr example_reply) = Some example_node"
    by (simp add: check_port_def example_reply_def example_doc_def PortScanner_node_dict_def
          disk_space_of_def disk_field_def lookup_default_def py_add_def example_node_def
          str_of_int_def str_of_nat.simps digit_char_def)
  have p: "get_dashboard_port example_attrs = Inr (Some 15002)"
    by (simp add: get_dashboard_port_def example_attrs_def found_def py_int_eval)
  have sp: "get_storage_port example_attrs = Inr 28967"
    by (simp add: get_storage_port_def example_attrs_def py_int_eval)
  have n: "lstrip CHR ''/'' (Name example_attrs) = ''storagenode''"
          "Image example_attrs = ''storjlabs/storagenode:latest''"
    by (simp_all add: example_attrs_def lstrip_def)
  have x: "extract_node_info example_float_ops ?get example_container = Some docker_example_node"
    by (simp add: extract_node_info_def example_container_def p sp n fetch_node_data_def
          DockerDiscovery_node_dict_def example_reply_def example_doc_def
          disk_space_of_def disk_field_def lookup_default_def py_add_def
          docker_example_node_def example_node_def)
  have u: "used (disk_space example_node) = JInt 100"
          "available (disk_space example_node) = JInt 900"
          "used (disk_space docker_example_node) = JInt 100"
          "available (disk_space docker_example_node) = JInt 900"
    by (simp_all add: example_node_def docker_example_node_def)
  from disk_total_derived [of example_float_ops "''10.0.0.1''" 14002 "Inr example_reply"
      example_node ?get "\<lparr>cid = [], reload = Inl ClientError\<rparr>"] c u
  have t1: "total' (disk_space example_node) = JInt (100 + 900)" by blast
  from disk_total_derived [of example_float_ops "''10.0.0.1''" 14002 "Inl ClientError"
      docker_example_node ?get example_container] x u
  have t2: "total' (disk_space docker_example_node) = JInt (100 + 900)" by blast
  have "disk_space example_node = \<lparr>used = JInt 100, available = JInt 900, total' = JInt (100 + 900)\<rparr>"
    using u t1 by (cases "disk_space example_node") simp
  moreover have "disk_space docker_example_node
        = \<lparr>used = JInt 100, available = JInt 900, total' = JInt (100 + 900)\<rparr>"
    using u t2 by (cases "disk_space docker_example_node") simp
  ultimately show ?thesis using c x by blast
qed

section \<open>Aggregation: results\<close>

lemma py_key_eq_refl: "py_key_eq k k"
  by (cases k) (simp_all add: py_key_eq_def)

lemma py_key_eq_str_left: "py_key_eq (JStr s) k = (k = JStr s)"
  by (cases k) (auto simp: py_key_eq_def)

lemma py_key_eq_str_right: "py_key_eq k (JStr s) = (k = JStr s)"
  by (cases k) (auto simp: py_key_eq_def)

lemma with_key_dict_store:
  "with_key s (dict_store d k v)
     = (if k = JStr s then (JStr s, v) # tl (with_key s d) else with_key s d)"
proof (induction d)
  case Nil
  show ?case by (auto simp: with_key_def)
next
  case (Cons kv d)
  obtain k' v' where kv: "kv = (k', v')" by (cases kv)
  show ?case using Cons
    by (auto simp: kv with_key_def py_key_eq_str_left py_key_eq_str_right)
qed

lemma keyed_dict_store:
  assumes "keyed d"
  shows "keyed (dict_store d (node_id n) n)"
  using assms
  by (induction d) (auto simp: keyed_def py_key_eq_refl split: if_splits)

lemma values_dict_store:
  "set (map snd (dict_store d k v)) \<subseteq> insert v (set (map snd d))"
  by (induction d) (force split: if_splits)+

lemma unique_nodes_ok:
  assumes "\<forall>n \<in> set xs. hashable (node_id n)"
  shows "\<exists>d'. unique_nodes d xs = Inr d'"
  using assms by (induction xs arbitrary: d) auto

lemma unique_nodes_keyed:
  assumes "unique_nodes d xs = Inr d'" "keyed d"
  shows "keyed d'"
  using assms
  by (induction xs arbitrary: d) (auto simp: keyed_dict_store split: if_splits)

lemma unique_nodes_values:
  assumes "unique_nodes d xs = Inr d'"
  shows "set (map snd d') \<subseteq> set (map snd d) \<union> set xs"
  using assms
proof (induction xs arbitrary: d)
  case Nil
  then show ?case by simp
next
  case (Cons n xs)
  from Cons.prems have u: "unique_nodes (dict_store d (node_id n) n) xs = Inr d'"
    by (auto split: if_splits)
  from Cons.IH [OF u] values_dict_store [of d "node_id n" n] show ?case by auto
qed

lemma unique_nodes_with_key:
  assumes "unique_nodes d xs = Inr d'"
  shows "with_key s d' =
          (if filter (has_id s) xs = [] then with_key s d
           else (JStr s, last (filter (has_id s) xs)) # tl (with_key s d))"
  using assms
proof (induction xs arbitrary: d)
  case Nil
  then show ?case by simp
next
  case (Cons n xs)
  from Cons.prems have u: "unique_nodes (dict_store d (node_id n) n) xs = Inr d'"
    by (auto split: if_splits)
  show ?case
    using Cons.IH [OF u] by (auto simp: with_key_dict_store has_id_def)
qed

lemma keyed_values:
  assumes "keyed d"
  shows "filter (has_id s) (map snd d) = map snd (with_key s d)"
  using assms
  by (induction d)
     (auto simp: keyed_def with_key_def has_id_def py_key_eq_str_left py_key_eq_str_right)

text \<open>The deduplicated list, by string key: nothing is invented, and under every string
  key there is the last input record with that key, or nothing when there is none.\<close>

lemma handle_discover_by_id:
  assumes h: "\<forall>n \<in> set (discovered_nodes docker_nodes port_nodes). hashable (node_id n)"
      and ne: "discovered_nodes docker_nodes port_nodes \<noteq> []"
  shows "\<exists>out. handle_discover docker_nodes port_nodes = Inr (Some out)
           \<and> set out \<subseteq> set (discovered_nodes docker_nodes port_nodes)
           \<and> (\<forall>s. filter (has_id s) out =
                (if filter (has_id s) (discovered_nodes docker_nodes port_nodes) = [] then []
                 else [last (filter (has_id s) (discovered_nodes docker_nodes port_nodes))]))"
proof -
  let ?xs = "discovered_nodes docker_nodes port_nodes"
  from unique_nodes_ok [OF h] obtain d where d: "unique_nodes [] ?xs = Inr d" by blast
  have k: "keyed d" using unique_nodes_keyed [OF d] by (simp add: keyed_def)
  have v: "set (map snd d) \<subseteq> set ?xs" using unique_nodes_values [OF d] by simp
  have hd: "handle_discover docker_nodes port_nodes = Inr (Some (map snd d))"
    using ne d by (simp add: handle_discover_def)
  have "filter (has_id s) (map snd d) =
                (if filter (has_id s) ?xs = [] then []
                 else [last (filter (has_id s) ?xs)])" for s
    using unique_nodes_with_key [OF d, of s] keyed_values [OF k, of s]
    by (simp add: with_key_def)
  with hd v show ?thesis by blast
qed

text \<open>
  Claim C6.  Let the records of the concatenated discoverer outputs have hashable
  identities, and let some record carry the non-empty string \<open>s\<close> as its \<open>node_id\<close>.
  Then aggregation succeeds, its output holds exactly one record with that identity,
  and it is the last such record of the concatenation; a record that is alone with its
  identity is therefore in the output.
\<close>

theorem dedup_last_write_wins:
  assumes h: "\<forall>n \<in> set (discovered_nodes docker_nodes port_nodes). hashable (node_id n)"
      and n: "n \<in> set (discovered_nodes docker_nodes port_nodes)"
      and s: "node_id n = JStr s" "s \<noteq> []"
  shows "\<exists>out. handle_discover docker_nodes port_nodes = Inr (Some out)
           \<and> filter (has_id s) out
               = [last (filter (has_id s) (discovered_nodes docker_nodes port_nodes))]
           \<and> ((\<forall>m \<in> set (discovered_nodes docker_nodes port_nodes). has_id s m \<longrightarrow> m = n)
                \<longrightarrow> n \<in> set out)"
proof -
  let ?xs = "discovered_nodes docker_nodes port_nodes"
  from n have ne: "?xs \<noteq> []" by auto
  from handle_discover_by_id [OF h ne] obtain out
    where o: "handle_discover docker_nodes port_nodes = Inr (Some out)"
      and f: "\<And>s. filter (has_id s) out =
                (if filter (has_id s) ?xs = [] then [] else [last (filter (has_id s) ?xs)])"
    by blast
  from n s have m: "n \<in> set (filter (has_id s) ?xs)" by (simp add: has_id_def)
  then have fne: "filter (has_id s) ?xs \<noteq> []" by (metis empty_iff list.set(1))
  with f have one: "filter (has_id s) out = [last (filter (has_id s) ?xs)]" by simp
  have "n \<in> set out" if u: "\<forall>m \<in> set ?xs. has_id s m \<longrightarrow> m = n"
  proof -
    have "last (filter (has_id s) ?xs) \<in> set (filter (has_id s) ?xs)"
      using fne by (rule last_in_set)
    with u have "last (filter (has_id s) ?xs) = n" by auto
    with one have "n \<in> set (filter (has_id s) out)" by simp
    then show ?thesis by simp
  qed
  with o one show ?thesis by blast
qed

theorem dedup_last_write_wins_witness:
  "handle_discover (Some [node_a, node_c]) (Some [node_b]) = Inr (Some [node_b, node_c])
   \<and> filter (has_id ''1abc'') [node_b, node_c] = [node_b]
   \<and> last (filter (has_id ''1abc'') [node_a, node_c, node_b]) = node_b
   \<and> status node_a \<noteq> status node_b
   \<and> node_c \<in> set [node_b, node_c]"
proof -
  let ?d = "Some [node_a, node_c]" and ?p = "Some [node_b]"
  have e: "handle_discover ?d ?p = Inr (Some [node_b, node_c])"
    by (simp add: handle_discover_def discovered_nodes_def node_a_def node_b_def node_c_def
          example_node_def py_key_eq_def)
  have d: "discovered_nodes ?d ?p = [node_a, node_c, node_b]"
    by (simp add: discovered_nodes_def)
  have l: "last (filter (has_id ''1abc'') [node_a, node_c, node_b]) = node_b"
    by (simp add: has_id_def node_a_def node_b_def node_c_def example_node_def)
  have h: "\<forall>n \<in> set (discovered_nodes ?d ?p). hashable (node_id n)"
    by (simp add: discovered_nodes_def node_a_def node_b_def node_c_def example_node_def)
  have "\<exists>out. handle_discover ?d ?p = Inr (Some out)
           \<and> filter (has_id ''1abc'') out
               = [last (filter (has_id ''1abc'') (discovered_nodes ?d ?p))]
           \<and> ((\<forall>m \<in> set (discovered_nodes ?d ?p). has_id ''1abc'' m \<longrightarrow> m = node_b)
                \<longrightarrow> node_b \<in> set out)"
    by (rule dedup_last_write_wins [OF h, of node_b "''1abc''"])
       (simp_all add: discovered_nodes_def node_b_def example_node_def)
  with e d l have f: "filter (has_id ''1abc'') [node_b, node_c] = [node_b]" by simp
  have "\<exists>out. handle_discover ?d ?p = Inr (Some out)
           \<and> filter (has_id ''2def'') out
               = [last (filter (has_id ''2def'') (discovered_nodes ?d ?p))]
           \<and> ((\<forall>m \<in> set (discovered_nodes ?d ?p). has_id ''2def'' m \<longrightarrow> m = node_c)
                \<longrightarrow> node_c \<in> set out)"
    by (rule dedup_last_write_wins [OF h, of node_c "''2def''"])
       (simp_all add: discovered_nodes_def node_c_def example_node_def)
  moreover have "\<forall>m \<in> set (discovered_nodes ?d ?p). has_id ''2def'' m \<longrightarrow> m = node_c"
    by (simp add: discovered_nodes_def has_id_def node_a_def node_b_def node_c_def example_node_def)
  ultimately have c: "node_c \<in> set [node_b, node_c]" using e by auto
  have "status node_a \<noteq> status node_b"
    by (simp add: node_a_def node_b_def example_node_def)
  with e f l c show ?thesis by blast
qed

text \<open>
  Claim C2, as the code has it.  Nothing is filtered before deduplication: the empty
  string is a key like any other.  The output holds a record with an empty \<open>node_id\<close>
  exactly when some input record has one, and then exactly one, the last of them.
\<close>

theorem empty_id_kept:
  assumes h: "\<forall>n \<in> set (discovered_nodes docker_nodes port_nodes). hashable (node_id n)"
      and ne: "discovered_nodes docker_nodes port_nodes \<noteq> []"
  shows "\<exists>out. handle_discover docker_nodes port_nodes = Inr (Some out)
           \<and> filter (has_id []) out =
                (if filter (has_id []) (discovered_nodes docker_nodes port_nodes) = [] then []
                 else [last (filter (has_id []) (discovered_nodes docker_nodes port_nodes))])"
  using handle_discover_by_id [OF h ne] by blast

theorem empty_id_kept_witness:
  "handle_discover None (Some [example_node, node_c]) = Inr (Some [example_node, node_c])
   \<and> filter (has_id []) [example_node, node_c] = [example_node]"
proof -
  have e: "handle_discover None (Some [example_node, node_c]) = Inr (Some [example_node, node_c])"
    by (simp add: handle_discover_def discovered_nodes_def node_c_def example_node_def py_key_eq_def)
  have d: "discovered_nodes None (Some [example_node, node_c]) = [example_node, node_c]"
    by (simp add: discovered_nodes_def)
  have "\<exists>out. handle_discover None (Some [example_node, node_c]) = Inr (Some out)
           \<and> filter (has_id []) out =
                (if filter (has_id []) (discovered_nodes None (Some [example_node, node_c])) = [] then []
                 else [last (filter (has_id []) (discovered_nodes None (Some [example_node, node_c])))])"
    by (rule empty_id_kept) (simp_all add: discovered_nodes_def node_c_def example_node_def)
  with e d show ?thesis by (simp add: has_id_def node_c_def example_node_def)
qed

text \<open>
  Claim C2 as stated fails: a port scan of one responding node whose status document
  has no \<^verbatim>\<open>nodeID\<close> yields a record with the empty identity, and aggregation returns it.
\<close>

theorem empty_id_not_dropped:
  "scan_ports example_float_ops (\<lambda>host port. Inr example_reply) ''10.0.0.1'' [14002] = [example_node]
   \<and> node_id example_node = JStr []
   \<and> handle_discover None (Some [example_node]) = Inr (Some [example_node])"
  by (simp add: scan_ports_def List.map_filter_def check_port_def example_reply_def example_doc_def PortScanner_node_dict_def
          disk_space_of_def disk_field_def lookup_default_def py_add_def example_node_def
          str_of_int_def str_of_nat.simps digit_char_def handle_discover_def discovered_nodes_def py_key_eq_def)

section \<open>Registration: results\<close>

lemma sliceable_slice8: "sliceable x \<Longrightarrow> \<exists>y. slice8 x = Inr y"
  by (simp add: sliceable_def split: sum.splits)

lemma payload_ok: "is_obj (bandwidth n) \<Longrightarrow> \<exists>p. registration_payload n = Inr p"
  by (cases "bandwidth n") (simp_all add: registration_payload_def)

lemma update_existing_node_result:
  assumes "slice8 (node_id n) = Inr y"
  shows "update_existing_node srv s n p =
           Inr (status_in (fst (srv s (PATCH_node (node_id n) p))) [200, 204],
                snd (srv s (PATCH_node (node_id n) p)),
                [(PATCH_node (node_id n) p, fst (srv s (PATCH_node (node_id n) p)))])"
  using assms
  by (auto simp: update_existing_node_def try_except_def status_in_def
           split: prod.splits sum.splits)

lemma register_single_node_result:
  assumes sl: "sliceable (node_id n)" and bw: "is_obj (bandwidth n)"
  shows "\<exists>ok s' ex. register_single_node srv s n = Inr (ok, s', ex)
            \<and> well_formed n ex \<and> ok = accepted n ex"
proof -
  from sliceable_slice8 [OF sl] obtain y where y: "slice8 (node_id n) = Inr y" by blast
  from payload_ok [OF bw] obtain p where p: "registration_payload n = Inr p" by blast
  obtain outcome s1 where r: "srv s (POST_nodes p) = (outcome, s1)" by (cases "srv s (POST_nodes p)")
  have fin: ?thesis if "register_single_node srv s n = Inr (ok, s', ex)"
      "well_formed n ex" "ok = accepted n ex" for ok s' ex
    using that by blast
  have failed: ?thesis
    if f: "register_single_node srv s n = Inr (False, s1, [(POST_nodes p, outcome)])"
      and n2: "\<not> status_in outcome [200, 201]" and n4: "\<not> status_in outcome [409]"
  proof (rule fin [OF f])
    show "well_formed n [(POST_nodes p, outcome)]" using p n4 by simp
    show "False = accepted n [(POST_nodes p, outcome)]" using n2 by simp
  qed
  show ?thesis
  proof (cases outcome)
    case (Inl e)
    have "register_single_node srv s n = Inr (False, s1, [(POST_nodes p, outcome)])"
      using y p r Inl by (simp add: register_single_node_def try_except_def)
    then show ?thesis
      by (rule failed) (simp_all add: Inl status_in_def)
  next
    case (Inr response)
    consider "status_code response = 200 \<or> status_code response = 201"
      | "status_code response = 409"
      | "status_code response = 401"
      | "status_code response \<noteq> 200" "status_code response \<noteq> 201"
        "status_code response \<noteq> 409" "status_code response \<noteq> 401" by blast
    then show ?thesis
    proof cases
      case 1
      then have f: "register_single_node srv s n = Inr (True, s1, [(POST_nodes p, outcome)])"
        using y p r Inr by (simp add: register_single_node_def try_except_def)
      show ?thesis
      proof (rule fin [OF f])
        show "well_formed n [(POST_nodes p, outcome)]"
          using 1 p Inr by (auto simp: status_in_def)
        show "True = accepted n [(POST_nodes p, outcome)]"
          using 1 p Inr by (auto simp: status_in_def)
      qed
    next
      case 2
      let ?q = "PATCH_node (node_id n) p"
      have f: "register_single_node srv s n =
              Inr (status_in (fst (srv s1 ?q)) [200, 204], snd (srv s1 ?q),
                   [(POST_nodes p, outcome), (?q, fst (srv s1 ?q))])"
        using y p r Inr 2 update_existing_node_result [OF y, of srv s1 p]
        by (simp add: register_single_node_def try_except_def)
      have o: "status_in outcome [409]" using 2 Inr by (simp add: status_in_def)
      show ?thesis
      proof (rule fin [OF f])
        show "well_formed n [(POST_nodes p, outcome), (?q, fst (srv s1 ?q))]"
          using p o by simp
        show "status_in (fst (srv s1 ?q)) [200, 204]
                = accepted n [(POST_nodes p, outcome), (?q, fst (srv s1 ?q))]"
          using p o by simp
      qed
    next
      case 3
      then have "register_single_node srv s n = Inr (False, s1, [(POST_nodes p, outcome)])"
        using y p r Inr by (simp add: register_single_node_def try_except_def)
      then show ?thesis
        using 3 by (intro failed) (simp_all add: Inr status_in_def)
    next
      case 4
      then have "register_single_node srv s n = Inr (False, s1, [(POST_nodes p, outcome)])"
        using y p r Inr
        by (cases "text_body response") (simp_all add: register_single_node_def try_except_def)
      then show ?thesis
        using 4 by (intro failed) (simp_all add: Inr status_in_def)
    qed
  qed
qed

lemma register_loop_attempts:
  assumes "\<forall>n \<in> set nodes. sliceable (node_id n) \<and> is_obj (bandwidth n)"
  shows "(\<exists>s'. register_loop srv s nodes c tr =
            Inr (c + length (filter fst (attempts srv s nodes)), s',
                 tr @ concat (map snd (attempts srv s nodes))))
          \<and> each_ok nodes (attempts srv s nodes)"
  using assms
proof (induction nodes arbitrary: s c tr)
  case Nil
  then show ?case by (simp add: each_ok_def)
next
  case (Cons n nodes)
  from Cons.prems have sl: "sliceable (node_id n)" and bw: "is_obj (bandwidth n)"
    and rest: "\<forall>m \<in> set nodes. sliceable (node_id m) \<and> is_obj (bandwidth m)" by auto
  from register_single_node_result [OF sl bw, of srv s] obtain ok s1 ex
    where one: "register_single_node srv s n = Inr (ok, s1, ex)"
      and wf: "well_formed n ex" and acc: "ok = accepted n ex" by blast
  let ?c = "if ok then c + 1 else c"
  from Cons.IH [OF rest, of s1 ?c "tr @ ex"] obtain s'
    where loop: "register_loop srv s1 nodes ?c (tr @ ex) =
            Inr (?c + length (filter fst (attempts srv s1 nodes)), s',
                 (tr @ ex) @ concat (map snd (attempts srv s1 nodes)))"
      and each: "each_ok nodes (attempts srv s1 nodes)"
    by blast
  have a: "attempts srv s (n # nodes) = (ok, ex) # attempts srv s1 nodes"
    using one by simp
  have l: "register_loop srv s (n # nodes) c tr = register_loop srv s1 nodes ?c (tr @ ex)"
    using one by simp
  have "register_loop srv s (n # nodes) c tr =
            Inr (c + length (filter fst (attempts srv s (n # nodes))), s',
                 tr @ concat (map snd (attempts srv s (n # nodes))))"
    unfolding l loop a by simp
  moreover have "each_ok (n # nodes) (attempts srv s (n # nodes))"
    unfolding a using wf acc each by (simp add: each_ok_def)
  ultimately show ?case by blast
qed

text \<open>The payload is built before the \<^verbatim>\<open>try\<close>: a record whose bandwidth is not an
  object ends the whole call with an exception.\<close>

lemma register_nodes_raises_on_bandwidth:
  assumes "\<not> is_obj (bandwidth n)"
  shows "register_nodes srv s (n # rest) = Inl AttributeError"
  using assms
  by (cases "bandwidth n")
     (simp_all add: register_nodes_def register_single_node_def registration_payload_def)

text \<open>
  Claim C3, as the code has it.  For records whose identity can be sliced (a string)
  and whose bandwidth is an object, \<^verbatim>\<open>register_nodes\<close> returns; every record is
  attempted in turn, whatever happened to the records before it; the count returned is
  the number of records with a positive verdict; each record's exchanges are its POST
  alone, or its POST answered 409 followed by a PATCH of the same payload to the
  record's identity; and the verdict is positive exactly when the POST was answered 200
  or 201, or was answered 409 and the PATCH 200 or 204.  A 401, like every other
  answer, gives a negative verdict for that record and the loop goes on.
\<close>

theorem register_counts_successes:
  assumes "\<forall>n \<in> set nodes. sliceable (node_id n) \<and> is_obj (bandwidth n)"
  shows "(\<exists>s'. register_nodes srv s nodes =
            Inr (length (filter fst (attempts srv s nodes)), s',
                 concat (map snd (attempts srv s nodes))))
       \<and> length (attempts srv s nodes) = length nodes
       \<and> (\<forall>i < length nodes.
             well_formed (nodes ! i) (snd (attempts srv s nodes ! i))
             \<and> fst (attempts srv s nodes ! i) = accepted (nodes ! i) (snd (attempts srv s nodes ! i)))"
proof -
  from register_loop_attempts [OF assms, of srv s 0 "[]"]
  obtain s' where l: "register_loop srv s nodes 0 [] =
            Inr (length (filter fst (attempts srv s nodes)), s',
                 concat (map snd (attempts srv s nodes)))"
    and e: "each_ok nodes (attempts srv s nodes)" by auto
  have "\<exists>s'. register_nodes srv s nodes =
            Inr (length (filter fst (attempts srv s nodes)), s',
                 concat (map snd (attempts srv s nodes)))"
  proof (cases "nodes = []")
    case True
    then show ?thesis by (simp add: register_nodes_def)
  next
    case False
    then show ?thesis using l by (simp add: register_nodes_def)
  qed
  moreover from e have "length (attempts srv s nodes) = length nodes"
    by (simp add: each_ok_def list_all2_lengthD)
  moreover from e have "\<forall>i < length nodes.
             well_formed (nodes ! i) (snd (attempts srv s nodes ! i))
             \<and> fst (attempts srv s nodes ! i) = accepted (nodes ! i) (snd (attempts srv s nodes ! i))"
    by (simp add: each_ok_def list_all2_conv_all_nth)
  ultimately show ?thesis by blast
qed

theorem register_counts_successes_witness:
  "registered_count (register_nodes example_registry [] [node_a, node_c, node_b]) = Some 2
   \<and> map fst (attempts example_registry [] [node_a, node_c, node_b]) = [True, False, True]"
proof -
  have a: "map fst (attempts example_registry [] [node_a, node_c, node_b]) = [True, False, True]"
    by (simp add: register_single_node_def update_existing_node_def try_except_def
          registration_payload_def example_registry_def reply_with_def
          node_a_def node_b_def node_c_def example_node_def lookup_default_def)
  have "\<exists>s'. register_nodes example_registry [] [node_a, node_c, node_b] =
            Inr (length (filter fst (attempts example_registry [] [node_a, node_c, node_b])), s',
                 concat (map snd (attempts example_registry [] [node_a, node_c, node_b])))"
    using register_counts_successes [of "[node_a, node_c, node_b]" example_registry "[]"]
    by (simp add: sliceable_def node_a_def node_b_def node_c_def example_node_def)
  moreover have "length (filter fst (attempts example_registry [] [node_a, node_c, node_b]))
      = length (filter id (map fst (attempts example_registry [] [node_a, node_c, node_b])))"
    by (simp add: filter_map comp_def)
  ultimately have "registered_count (register_nodes example_registry [] [node_a, node_c, node_b]) = Some 2"
    unfolding a by (auto simp: registered_count_def)
  with a show ?thesis by blast
qed

text \<open>
  Claim C3 as stated fails on other 2xx codes: a POST answered 202 is not a success,
  and neither is a PATCH answered 201 after a 409.
\<close>

theorem register_2xx_counterexample:
  "registered_count (register_nodes always_202 () [node_b]) = Some 0
   \<and> registered_count (register_nodes conflict_then_201 () [node_b]) = Some 0"
  by (simp add: registered_count_def register_nodes_def register_single_node_def
        update_existing_node_def try_except_def registration_payload_def
        always_202_def conflict_then_201_def reply_with_def node_b_def example_node_def)

section \<open>Credential validation: results\<close>

text \<open>
  Claim C4, as the code has it.  \<^verbatim>\<open>test_token\<close> returns the account info exactly when
  the answer has status 200 and its body is a JSON object; in every other case it
  returns \<^verbatim>\<open>None\<close>.  Nothing is raised.  A 401, another status and an exception differ
  only in the line they log: a fixed text for 401, the status code alone for another
  status, the exception for an exception.
\<close>

theorem test_token_outcomes:
  "(fst (test_token outcome) = Some u \<longleftrightarrow>
      (\<exists>response. outcome = Inr response \<and> status_code response = 200
          \<and> json_body response = Inr u \<and> is_obj u))
   \<and> (outcome = Inr response \<and> status_code response = 401
        \<longrightarrow> test_token outcome = (None, [(Error, ''Invalid API token'', [])]))
   \<and> (outcome = Inr response \<and> status_code response \<noteq> 200 \<and> status_code response \<noteq> 401
        \<longrightarrow> test_token outcome
              = (None, [(Error, ''Token validation failed: HTTP %d'', [AInt (status_code response)])]))
   \<and> (outcome = Inl e
        \<longrightarrow> test_token outcome = (None, [(Error, ''Token validation error: %s'', [AExc e])]))"
proof (intro conjI)
  show "fst (test_token outcome) = Some u \<longleftrightarrow>
      (\<exists>response. outcome = Inr response \<and> status_code response = 200
          \<and> json_body response = Inr u \<and> is_obj u)"
  proof (cases outcome)
    case (Inl e)
    then show ?thesis by (simp add: test_token_def)
  next
    case (Inr response)
    show ?thesis
    proof (cases "status_code response = 200")
      case False
      then show ?thesis using Inr by (simp add: test_token_def)
    next
      case True
      show ?thesis
      proof (cases "json_body response")
        case (Inl e)
        then show ?thesis using Inr True by (simp add: test_token_def)
      next
        case b: (Inr user_data)
        show ?thesis using Inr True b
          by (cases user_data) (auto simp: test_token_def)
      qed
    qed
  qed
qed (simp_all add: test_token_def)

theorem test_token_outcomes_witness:
  "fst (test_token (Inr account_reply))
      = Some (JObj [(''email'', JStr ''op@example.org''), (''permissions'', JArr [])])
   \<and> test_token (Inr (error_reply 401)) = (None, [(Error, ''Invalid API token'', [])])
   \<and> test_token (Inr (error_reply 500))
        = (None, [(Error, ''Token validation failed: HTTP %d'', [AInt 500])])
   \<and> test_token (Inl TimeoutError)
        = (None, [(Error, ''Token validation error: %s'', [AExc TimeoutError])])"
proof -
  let ?u = "JObj [(''email'', JStr ''op@example.org''), (''permissions'', JArr [])]"
  have "\<exists>response. Inr account_reply = (Inr response :: http_outcome) \<and> status_code response = 200
          \<and> json_body response = Inr ?u \<and> is_obj ?u"
    by (simp add: account_reply_def)
  with test_token_outcomes [of "Inr account_reply" ?u account_reply ClientError]
  have a: "fst (test_token (Inr account_reply)) = Some ?u" by blast
  from test_token_outcomes [of "Inr (error_reply 401)" ?u "error_reply 401" ClientError]
  have b: "test_token (Inr (error_reply 401)) = (None, [(Error, ''Invalid API token'', [])])"
    by (simp add: error_reply_def)
  from test_token_outcomes [of "Inr (error_reply 500)" ?u "error_reply 500" ClientError]
  have c: "test_token (Inr (error_reply 500))
        = (None, [(Error, ''Token validation failed: HTTP %d'', [AInt 500])])"
    by (simp add: error_reply_def)
  from test_token_outcomes [of "Inl TimeoutError" ?u account_reply TimeoutError]
  have d: "test_token (Inl TimeoutError)
        = (None, [(Error, ''Token validation error: %s'', [AExc TimeoutError])])"
    by simp
  from a b c d show ?thesis by blast
qed

text \<open>
  Claim C4 as stated fails: on a 401, on a 500 and on a transport exception the caller
  receives the same \<^verbatim>\<open>None\<close>, and the line logged for the 500 carries the status code
  but not the body.
\<close>

theorem test_token_indistinguishable:
  "fst (test_token (Inr (error_reply 401))) = None
   \<and> fst (test_token (Inr (error_reply 500))) = None
   \<and> fst (test_token (Inl ClientError)) = None
   \<and> snd (test_token (Inr (error_reply 500)))
        = [(Error, ''Token validation failed: HTTP %d'', [AInt 500])]
   \<and> text_body (error_reply 500) = Inr ''internal error''"
  by (simp add: test_token_def error_reply_def)

section \<open>Synchronization: results\<close>

lemma results_sync_batch:
  "results (sync_batch now nodes io)
     = map (\<lambda>i. fst (sync_node now (nodes ! i) (io i))) [0..<length nodes]"
  by (simp add: sync_batch_def Let_def comp_def)

lemma events_sync_batch:
  "events (sync_batch now nodes io)
     = concat (map (\<lambda>i. snd (sync_node now (nodes ! i) (io i))) [0..<length nodes])"
  by (simp add: sync_batch_def Let_def comp_def)

lemma sync_node_dict:
  "\<exists>b evs. sync_node now (JObj node) io = (Inr b, probe_request node # evs)"
  by (auto simp: Let_def probe_request_def split: option.splits sum.splits)

lemma sync_node_probe_fails:
  assumes "fetch_node_data (probe io) = None"
  shows "fst (sync_node now (JObj node) io) = Inr False"
  using assms by (simp add: Let_def)

lemma sync_cycle_returns: "\<exists>c. sync_cycle now batch_size listing io = Inr c"
  by (cases "sync_cycle_body now batch_size listing io") (simp_all add: sync_cycle_def)

lemma ceil_div_covers:
  assumes "0 < (b::nat)"
  shows "n \<le> ((n + b - 1) div b) * b"
proof -
  have "(n + b - 1) mod b < b" using assms by simp
  moreover have "(n + b - 1) div b * b + (n + b - 1) mod b = n + b - 1" by simp
  ultimately show ?thesis using assms by linarith
qed

lemma map_shift: "map (\<lambda>j. g (a + j)) [0..<c] = map g [a..<a + c]"
  by (induction c) simp_all

lemma chunked_results:
  assumes b: "0 < (b::nat)"
  shows "concat (map (\<lambda>k. map (\<lambda>j. g (k * b + j)) [0..<length (take b (drop (k * b) xs))]) [0..<m])
           = map g [0..<min (m * b) (length xs)]"
proof (induction m)
  case 0
  show ?case by simp
next
  case (Suc m)
  let ?n = "length xs"
  let ?c = "min (?n - m * b) b"
  have len: "length (take b (drop (m * b) xs)) = ?c" by simp
  have sh: "map (\<lambda>j. g (m * b + j)) [0..<?c] = map g [m * b..<m * b + ?c]"
    by (rule map_shift)
  have "concat (map (\<lambda>k. map (\<lambda>j. g (k * b + j)) [0..<length (take b (drop (k * b) xs))]) [0..<Suc m])
      = concat (map (\<lambda>k. map (\<lambda>j. g (k * b + j)) [0..<length (take b (drop (k * b) xs))]) [0..<m])
        @ map (\<lambda>j. g (m * b + j)) [0..<length (take b (drop (m * b) xs))]"
    by simp
  then have step: "concat (map (\<lambda>k. map (\<lambda>j. g (k * b + j)) [0..<length (take b (drop (k * b) xs))]) [0..<Suc m])
      = map g [0..<min (m * b) ?n] @ map g [m * b..<m * b + ?c]"
    unfolding Suc len sh .
  show ?case
  proof (cases "m * b \<le> ?n")
    case True
    then have e: "min (Suc m * b) ?n = m * b + ?c" by auto
    have "map g [0..<min (m * b) ?n] @ map g [m * b..<m * b + ?c]
            = map g ([0..<m * b] @ [m * b..<m * b + ?c])"
      using True by simp
    also have "[0..<m * b] @ [m * b..<m * b + ?c] = [0..<m * b + ?c]"
      by (rule upt_add_eq_append [symmetric]) simp
    finally show ?thesis unfolding step e .
  next
    case False
    then have "?c = 0" "min (Suc m * b) ?n = ?n" "min (m * b) ?n = ?n" by auto
    then show ?thesis unfolding step by simp
  qed
qed

lemma batch_results_shifted:
  "results (sync_batch now (take b (drop (k * b) xs)) (\<lambda>j. io (k * b + j)))
     = map (\<lambda>j. fst (sync_node now (xs ! (k * b + j)) (io (k * b + j))))
           [0..<length (take b (drop (k * b) xs))]"
  unfolding results_sync_batch by (rule map_cong) auto

lemma sync_cycle_covers:
  assumes l: "get_registered_nodes listing = JArr xs" and ne: "xs \<noteq> []" and b: "0 < batch_size"
  shows "\<exists>reports. sync_cycle now batch_size listing io = Inr (Completed reports)
           \<and> concat (map results reports)
               = map (\<lambda>i. fst (sync_node now (xs ! i) (io i))) [0..<length xs]"
proof -
  let ?b = "nat batch_size"
  let ?m = "(length xs + ?b - 1) div ?b"
  let ?reports = "map (\<lambda>k. sync_batch now (take ?b (drop (k * ?b) xs)) (\<lambda>j. io (k * ?b + j))) [0..<?m]"
  have pos: "0 < ?b" using b by simp
  have body: "sync_cycle_body now batch_size listing io = Inr ?reports"
    using l ne b by (simp add: sync_cycle_body_def)
  then have c: "sync_cycle now batch_size listing io = Inr (Completed ?reports)"
    by (simp add: sync_cycle_def)
  have "concat (map results ?reports)
      = concat (map (\<lambda>k. map (\<lambda>j. fst (sync_node now (xs ! (k * ?b + j)) (io (k * ?b + j))))
                               [0..<length (take ?b (drop (k * ?b) xs))]) [0..<?m])"
    by (simp add: comp_def batch_results_shifted)
  also have "\<dots> = map (\<lambda>i. fst (sync_node now (xs ! i) (io i))) [0..<min (?m * ?b) (length xs)]"
    by (rule chunked_results [OF pos])
  also have "min (?m * ?b) (length xs) = length xs"
    using ceil_div_covers [OF pos, of "length xs"] by simp
  finally show ?thesis using c by blast
qed

text \<open>
  Claim C5.  A batch gives one result per node, in order, and the result at a position
  is that node's own task result, computed from that node and the outcomes of its own
  two requests; the requests of every task are among the batch's events.  A node that
  is a dict is always probed, at its own address and port, and its task returns a value.  Changing what happens to
  the requests of one position, a timeout or failure there included, leaves the result
  at every other position as it was.  The cycle never ends in an exception, and with a
  positive batch size and a non-empty list of registered nodes it completes with a
  result for every node of the list.
\<close>

theorem batch_isolation:
  "length (results (sync_batch now nodes io)) = length nodes
   \<and> (\<forall>i < length nodes.
         results (sync_batch now nodes io) ! i = fst (sync_node now (nodes ! i) (io i))
         \<and> set (snd (sync_node now (nodes ! i) (io i))) \<subseteq> set (events (sync_batch now nodes io))
         \<and> (\<forall>node. nodes ! i = JObj node \<longrightarrow>
               probe_request node \<in> set (events (sync_batch now nodes io))
               \<and> (\<exists>ok. results (sync_batch now nodes io) ! i = Inr ok)))
   \<and> (\<forall>io' k. (\<forall>i. i \<noteq> k \<longrightarrow> io' i = io i) \<longrightarrow>
         (\<forall>i < length nodes. i \<noteq> k \<longrightarrow>
            results (sync_batch now nodes io') ! i = results (sync_batch now nodes io) ! i))
   \<and> (\<exists>c. sync_cycle now batch_size listing io = Inr c)
   \<and> (\<forall>xs. get_registered_nodes listing = JArr xs \<and> xs \<noteq> [] \<and> 0 < batch_size \<longrightarrow>
         (\<exists>reports. sync_cycle now batch_size listing io = Inr (Completed reports)
            \<and> concat (map results reports)
                = map (\<lambda>i. fst (sync_node now (xs ! i) (io i))) [0..<length xs]))"
proof (intro conjI allI impI)
  show "length (results (sync_batch now nodes io)) = length nodes"
    by (simp add: results_sync_batch)
next
  fix i assume i: "i < length nodes"
  show r: "results (sync_batch now nodes io) ! i = fst (sync_node now (nodes ! i) (io i))"
    using i by (simp add: results_sync_batch)
  show ev: "set (snd (sync_node now (nodes ! i) (io i))) \<subseteq> set (events (sync_batch now nodes io))"
    using i by (auto simp: events_sync_batch)
  fix node assume d: "nodes ! i = JObj node"
  from sync_node_dict [of now node "io i"] obtain b evs
    where s: "sync_node now (JObj node) (io i) = (Inr b, probe_request node # evs)" by blast
  show "probe_request node \<in> set (events (sync_batch now nodes io))"
    using ev d s by auto
  show "\<exists>ok. results (sync_batch now nodes io) ! i = Inr ok"
    using r d s by simp
next
  fix io' k i
  assume "\<forall>i. i \<noteq> k \<longrightarrow> io' i = io i" "i < length nodes" "i \<noteq> k"
  then show "results (sync_batch now nodes io') ! i = results (sync_batch now nodes io) ! i"
    by (simp add: results_sync_batch)
next
  show "\<exists>c. sync_cycle now batch_size listing io = Inr c"
    by (rule sync_cycle_returns)
next
  fix xs assume "get_registered_nodes listing = JArr xs \<and> xs \<noteq> [] \<and> 0 < batch_size"
  then show "\<exists>reports. sync_cycle now batch_size listing io = Inr (Completed reports)
            \<and> concat (map results reports)
                = map (\<lambda>i. fst (sync_node now (xs ! i) (io i))) [0..<length xs]"
    using sync_cycle_covers by blast
qed


theorem batch_isolation_witness:
  "results (sync_batch ''2024-01-01T00:00:00'' five_nodes five_io)
     = [Inr True, Inr True, Inr False, Inr True, Inr True]
   \<and> results (sync_batch ''2024-01-01T00:00:00'' five_nodes (five_io (2 := five_io 0))) ! 3
       = results (sync_batch ''2024-01-01T00:00:00'' five_nodes five_io) ! 3
   \<and> probe_request [(''id'', JInt 3), (''nodeId'', JStr ''1abc''), (''address'', JStr ''10.0.0.1''),
                     (''dashboardPort'', JInt (14002 + 3))]
       \<in> set (events (sync_batch ''2024-01-01T00:00:00'' five_nodes five_io))
   \<and> (\<exists>reports. sync_cycle ''2024-01-01T00:00:00'' 2 (Inr five_listing) five_io
                     = Inr (Completed reports)
          \<and> concat (map results reports) = [Inr True, Inr True, Inr False, Inr True, Inr True])"
proof -
  let ?now = "''2024-01-01T00:00:00''"
  let ?r = "results (sync_batch ?now five_nodes five_io)"
  let ?g = "\<lambda>i. fst (sync_node ?now (five_nodes ! i) (five_io i))"
  note t = batch_isolation [of ?now five_nodes five_io 2 "Inr five_listing"]
  have n: "length five_nodes = 5" by (simp add: five_nodes_def)
  have u: "update_data ?now example_doc \<noteq> Inl e" for e
    by (simp add: update_data_def example_doc_def disk_field_def lookup_default_def)
  have ok: "fst (sync_node ?now (registry_node k)
                  \<lparr>probe = Inr example_reply, patch = Inr (reply_with 200)\<rparr>) = Inr True" for k
    using u by (simp add: registry_node_def fetch_node_data_def example_reply_def
          patch_succeeded_def reply_with_def lookup_default_def Let_def example_doc_def
          split: sum.splits)
  have bad: "fst (sync_node ?now (registry_node k)
                   \<lparr>probe = Inl TimeoutError, patch = Inr (reply_with 200)\<rparr>) = Inr False" for k
    by (simp add: registry_node_def fetch_node_data_def Let_def)
  have upt5: "[0..<5] = [0, 1, 2, 3, 4 :: nat]"
    by (simp add: eval_nat_numeral)
  have g: "map ?g [0..<5] = [Inr True, Inr True, Inr False, Inr True, Inr True]"
    unfolding upt5 using ok bad by (simp add: five_nodes_def five_io_def)
  from t n have len: "length ?r = 5" and each: "\<forall>i < 5. ?r ! i = ?g i" by simp_all
  have r: "?r = [Inr True, Inr True, Inr False, Inr True, Inr True]"
  proof (rule nth_equalityI)
    show "length ?r = length [Inr True, Inr True, Inr False, Inr True, Inr True :: exc + bool]"
      using len by simp
    fix i assume "i < length ?r"
    then have i: "i < 5" using len by simp
    then have "?r ! i = map ?g [0..<5] ! i" using each by simp
    then show "?r ! i = [Inr True, Inr True, Inr False, Inr True, Inr True] ! i"
      unfolding g .
  qed
  from t have "\<forall>io' k. (\<forall>i. i \<noteq> k \<longrightarrow> io' i = five_io i) \<longrightarrow>
         (\<forall>i < length five_nodes. i \<noteq> k \<longrightarrow>
            results (sync_batch ?now five_nodes io') ! i = ?r ! i)"
    by blast
  then have "(\<forall>i. i \<noteq> 2 \<longrightarrow> (five_io (2 := five_io 0)) i = five_io i) \<longrightarrow>
         (\<forall>i < length five_nodes. i \<noteq> 2 \<longrightarrow>
            results (sync_batch ?now five_nodes (five_io (2 := five_io 0))) ! i = ?r ! i)"
    by blast
  moreover have "(3::nat) < length five_nodes" using n by simp
  ultimately have iso: "results (sync_batch ?now five_nodes (five_io (2 := five_io 0))) ! 3 = ?r ! 3"
    by simp
  from t have "\<forall>i < length five_nodes. \<forall>node. five_nodes ! i = JObj node \<longrightarrow>
               probe_request node \<in> set (events (sync_batch ?now five_nodes five_io))"
    by blast
  moreover have "(3::nat) < length five_nodes" using n by simp
  ultimately have "\<forall>node. five_nodes ! 3 = JObj node \<longrightarrow>
               probe_request node \<in> set (events (sync_batch ?now five_nodes five_io))"
    by blast
  then have pr: "probe_request [(''id'', JInt 3), (''nodeId'', JStr ''1abc''),
                    (''address'', JStr ''10.0.0.1''), (''dashboardPort'', JInt (14002 + 3))]
       \<in> set (events (sync_batch ?now five_nodes five_io))"
    by (simp add: five_nodes_def registry_node_def)
  have l: "get_registered_nodes (Inr five_listing) = JArr five_nodes"
    by (simp add: get_registered_nodes_def five_listing_def lookup_default_def)
  from t l n have "\<exists>reports. sync_cycle ?now 2 (Inr five_listing) five_io = Inr (Completed reports)
            \<and> concat (map results reports) = map ?g [0..<length five_nodes]"
    by auto
  then have cy: "\<exists>reports. sync_cycle ?now 2 (Inr five_listing) five_io = Inr (Completed reports)
            \<and> concat (map results reports) = [Inr True, Inr True, Inr False, Inr True, Inr True]"
    unfolding n g .
  from r iso pr cy show ?thesis by blast
qed

end
